theory Spec2Isabelle
  imports Complex_Main
begin

section \<open>Data model of \<open>nolitsa/data.py\<close>\<close>

text \<open>
  The module generates time series with numpy. A \<open>float64\<close> is a \<^typ>\<open>real\<close>.
  Rounding to float64 (\<open>fl64\<close>) is applied where a property below turns on it:
  in the quotients truncated to strides, in the Henon map and in the test for a
  zero denominator in \<open>mackey_glass\<close>; the other float operations are the real
  operations, and overflow is not modelled. The one place
  where the source produces a non-finite float that matters for the properties
  below (the rescaling at the end of \<open>falpha\<close>) uses the extended values \<open>fval\<close>.

  Exceptions are values: every generator returns \<open>error + result\<close>.
  The pseudo-random stream \<open>np.random.random(k)\<close> is the parameter \<open>rnd\<close>
  (draw \<open>j\<close> of the call is \<open>rnd j\<close>), and the contents of a buffer obtained
  from \<open>np.empty\<close> are the parameter \<open>junk\<close> (slot \<open>i\<close> holds \<open>junk i\<close>
  until the program writes it).
\<close>

datatype error = ValueError | IndexError | ZeroDivisionError | TypeError | SolverError

text \<open>
  The optional initial condition \<open>x0\<close> is dynamically typed in the source:
  \<open>None\<close>, a number, a list or tuple of numbers, or a one-dimensional ndarray
  (the type the docstrings name).
\<close>

datatype x0_arg = NoX0 | Scalar real | Seq "real list" | Arr "real list"

text \<open>
  Python's \<open>not x0\<close>: \<open>None\<close>, the number zero and the empty sequence are falsy;
  an ndarray of one element has the truth value of that element. An ndarray of
  any other size has no truth value: evaluating \<open>not x0\<close> raises ValueError
  (for the empty ndarray this is numpy from 2.2 on; earlier versions warn and
  take it as falsy, and no property below is stated for it).
\<close>

fun truth_ambiguous :: "x0_arg \<Rightarrow> bool" where
  "truth_ambiguous (Arr xs) = (length xs \<noteq> 1)"
| "truth_ambiguous x0 = False"

fun py_not :: "x0_arg \<Rightarrow> bool" where
  "py_not NoX0 = True"
| "py_not (Scalar v) = (v = 0)"
| "py_not (Seq xs) = (xs = [])"
| "py_not (Arr xs) = (xs = [] \<or> hd xs = 0)"

text \<open>
  numpy's assignment \<open>target[...] = src\<close> into a one-dimensional target of \<open>m\<close>
  slots: a source of \<open>m\<close> values is copied, a number or a source of one value is
  broadcast, any other size raises ValueError.
\<close>

definition np_broadcast :: "nat \<Rightarrow> real list \<Rightarrow> error + real list" where
  "np_broadcast m src =
     (if length src = m then Inr src
      else if length src = 1 then Inr (replicate m (hd src))
      else Inl ValueError)"

fun np_assign :: "nat \<Rightarrow> x0_arg \<Rightarrow> error + real list" where
  "np_assign m NoX0 = Inl TypeError"
| "np_assign m (Scalar v) = Inr (replicate m v)"
| "np_assign m (Seq xs) = np_broadcast m xs"
| "np_assign m (Arr xs) = np_broadcast m xs"

text \<open>Python's \<open>int(x)\<close> on a float truncates towards zero.\<close>

definition py_int :: "real \<Rightarrow> int" where
  "py_int x = (if 0 \<le> x then \<lfloor>x\<rfloor> else \<lceil>x\<rceil>)"

text \<open>Python's \<open>round(x)\<close>: to the nearest integer, ties to the even one.\<close>

definition py_round :: "real \<Rightarrow> int" where
  "py_round x =
     (if x - of_int \<lfloor>x\<rfloor> < 1 / 2 then \<lfloor>x\<rfloor>
      else if 1 / 2 < x - of_int \<lfloor>x\<rfloor> then \<lfloor>x\<rfloor> + 1
      else if even \<lfloor>x\<rfloor> then \<lfloor>x\<rfloor> else \<lfloor>x\<rfloor> + 1)"

text \<open>
  Rounding to float64, to the nearest value with ties to the even mantissa: a
  real in the binade \<open>[2^e, 2^(e+1))\<close> is rounded to a multiple of \<open>2^(e-52)\<close>,
  and below \<open>2^(-1022)\<close> to a multiple of \<open>2^(-1074)\<close>. Overflow to infinity is
  not modelled. Rounding is written out where a property below turns on it: the
  quotients that are truncated to strides, the Henon map, and the denominator
  of the Mackey-Glass coefficients where it is tested for zero. Elsewhere a
  float operation is the real operation.
\<close>

definition pow2 :: "int \<Rightarrow> real" where
  "pow2 e = (if 0 \<le> e then 2 ^ nat e else 1 / 2 ^ nat (- e))"

definition fl64 :: "real \<Rightarrow> real" where
  "fl64 x =
     (if x = 0 then 0
      else let e = max \<lfloor>log 2 \<bar>x\<bar>\<rfloor> (- 1022)
           in of_int (py_round (x / pow2 (e - 52))) * pow2 (e - 52))"

text \<open>
  Indexing \<open>xs[i]\<close> with Python's wrap-around of negative indices, and the
  store \<open>xs[i] = v\<close>.
\<close>

definition py_get :: "'a list \<Rightarrow> int \<Rightarrow> error + 'a" where
  "py_get xs i =
     (let n = int (length xs); j = (if i < 0 then i + n else i)
      in if 0 \<le> j \<and> j < n then Inr (xs ! nat j) else Inl IndexError)"

definition py_set :: "'a list \<Rightarrow> int \<Rightarrow> 'a \<Rightarrow> error + 'a list" where
  "py_set xs i v =
     (let n = int (length xs); j = (if i < 0 then i + n else i)
      in if 0 \<le> j \<and> j < n then Inr (xs[nat j := v]) else Inl IndexError)"

text \<open>
  The extended slice \<open>xs[start::step]\<close> (no stop): a zero step raises ValueError,
  a negative step walks backwards from the clipped start down to index 0.
\<close>

definition py_slice_from :: "'a list \<Rightarrow> int \<Rightarrow> int \<Rightarrow> error + 'a list" where
  "py_slice_from xs start step =
     (let n = int (length xs) in
      if step = 0 then Inl ValueError
      else if 0 < step then
        (let s = (if start < 0 then max 0 (start + n) else min start n)
         in Inr (map (\<lambda>k. xs ! nat (s + int k * step))
                  [0..<nat ((n - s + step - 1) div step)]))
      else
        (let s = (if start < 0 then max (- 1) (start + n) else min start (n - 1))
         in Inr (map (\<lambda>k. xs ! nat (s + int k * step))
                  [0..<nat ((s - step) div (- step))])))"

section \<open>The discrete maps\<close>

text \<open>
  \<open>henon\<close> and \<open>ikeda\<close> fill a buffer of \<open>length + discard\<close> rows of two floats;
  row 0 is the seed, each later row is computed from the row before it, and the
  slice \<open>x[discard:]\<close> is returned. A row is a pair. The Henon map is evaluated
  as Python evaluates \<open>1 - a * x ** 2 + b * y\<close>: the square, the two products,
  the difference and the sum are each rounded to float64.
\<close>

definition row2 :: "real list \<Rightarrow> real \<times> real" where
  "row2 r = (r ! 0, r ! 1)"

definition seed_row2 :: "x0_arg \<Rightarrow> real \<times> real \<Rightarrow> error + real \<times> real" where
  "seed_row2 x0 dflt =
     (if py_not x0 then Inr dflt
      else case np_assign 2 x0 of Inl e \<Rightarrow> Inl e | Inr r \<Rightarrow> Inr (row2 r))"

definition henon_next :: "real \<Rightarrow> real \<Rightarrow> real \<times> real \<Rightarrow> real \<times> real" where
  "henon_next a b p =
     (fl64 (fl64 (1 - fl64 (a * fl64 ((fst p)\<^sup>2))) + fl64 (b * snd p)), fst p)"

fun henon_loop :: "real \<Rightarrow> real \<Rightarrow> nat list \<Rightarrow> (real \<times> real) list \<Rightarrow> (real \<times> real) list" where
  "henon_loop a b [] x = x"
| "henon_loop a b (i # is) x = henon_loop a b is (x[i := henon_next a b (x ! (i - 1))])"

definition henon ::
  "nat \<Rightarrow> x0_arg \<Rightarrow> real \<Rightarrow> real \<Rightarrow> nat \<Rightarrow> (nat \<Rightarrow> real) \<Rightarrow> (nat \<Rightarrow> real \<times> real)
     \<Rightarrow> error + (real \<times> real) list" where
  "henon len x0 a b discard rnd junk =
     (let x = map junk [0..<len + discard] in
      if truth_ambiguous x0 then Inl ValueError
      else if len + discard = 0 then Inl IndexError
      else case seed_row2 x0
                  (fl64 (0.0 + fl64 (fl64 0.01 * fl64 (- 1 + fl64 (2 * rnd 0)))),
                   fl64 (fl64 0.9 + fl64 (fl64 0.01 * fl64 (- 1 + fl64 (2 * rnd 1))))) of
             Inl e \<Rightarrow> Inl e
           | Inr s \<Rightarrow> Inr (drop discard (henon_loop a b [1..<len + discard] (x[0 := s]))))"

definition ikeda_next :: "real \<Rightarrow> real \<Rightarrow> real \<Rightarrow> real \<Rightarrow> real \<times> real \<Rightarrow> real \<times> real" where
  "ikeda_next alpha beta gamma mu p =
     (let phi = beta - alpha / (1 + (fst p)\<^sup>2 + (snd p)\<^sup>2)
      in (gamma + mu * (fst p * cos phi - snd p * sin phi),
          mu * (fst p * sin phi + snd p * cos phi)))"

fun ikeda_loop ::
  "real \<Rightarrow> real \<Rightarrow> real \<Rightarrow> real \<Rightarrow> nat list \<Rightarrow> (real \<times> real) list \<Rightarrow> (real \<times> real) list" where
  "ikeda_loop alpha beta gamma mu [] x = x"
| "ikeda_loop alpha beta gamma mu (i # is) x =
     ikeda_loop alpha beta gamma mu is (x[i := ikeda_next alpha beta gamma mu (x ! (i - 1))])"

definition ikeda ::
  "nat \<Rightarrow> x0_arg \<Rightarrow> real \<Rightarrow> real \<Rightarrow> real \<Rightarrow> real \<Rightarrow> nat \<Rightarrow> (nat \<Rightarrow> real)
     \<Rightarrow> (nat \<Rightarrow> real \<times> real) \<Rightarrow> error + (real \<times> real) list" where
  "ikeda len x0 alpha beta gamma mu discard rnd junk =
     (let x = map junk [0..<len + discard] in
      if truth_ambiguous x0 then Inl ValueError
      else if len + discard = 0 then Inl IndexError
      else case seed_row2 x0 (0.1 * (- 1 + 2 * rnd 0), 0.1 * (- 1 + 2 * rnd 1)) of
             Inl e \<Rightarrow> Inl e
           | Inr s \<Rightarrow> Inr (drop discard (ikeda_loop alpha beta gamma mu [1..<len + discard] (x[0 := s]))))"

section \<open>The flows\<close>

text \<open>
  \<open>lorenz\<close> and \<open>roessler\<close> build a time grid with \<open>np.linspace\<close>, hand it to
  \<open>scipy.integrate.odeint\<close> and keep every \<open>sample\<close>-th point from offset
  \<open>discard * sample\<close> on. The integrator is an external routine: it is the
  parameter \<open>odeint\<close>, which may fail. The stride is \<open>int(sample / step)\<close>: the
  quotient is a float64, rounded before it is truncated.
\<close>

definition flow_stride :: "real \<Rightarrow> real \<Rightarrow> int" where
  "flow_stride sample step = py_int (fl64 (sample / step))"

text \<open>
  \<open>np.linspace(start, stop, num)\<close> with the default \<open>endpoint=True\<close>: \<open>num\<close>
  points, the increment is \<open>(stop - start) / (num - 1)\<close>, a negative \<open>num\<close> raises
  ValueError.
\<close>

definition linspace :: "real \<Rightarrow> real \<Rightarrow> int \<Rightarrow> error + real list" where
  "linspace start stop num =
     (if num < 0 then Inl ValueError
      else Inr (map (\<lambda>i. start + real i * ((stop - start) / (if num = 1 then 1 else of_int (num - 1))))
                 [0..<nat num]))"

type_synonym deriv = "real list \<Rightarrow> real \<Rightarrow> error + real list"
type_synonym solver = "deriv \<Rightarrow> real list \<Rightarrow> real list \<Rightarrow> error + real list list"

definition lorenz_deriv :: "real \<Rightarrow> real \<Rightarrow> real \<Rightarrow> deriv" where
  "lorenz_deriv sigma beta rho x t =
     (if length x < 3 then Inl IndexError
      else Inr [sigma * (x ! 1 - x ! 0), x ! 0 * (rho - x ! 2) - x ! 1,
                x ! 0 * x ! 1 - beta * x ! 2])"

definition roessler_deriv :: "real \<Rightarrow> real \<Rightarrow> real \<Rightarrow> deriv" where
  "roessler_deriv a b c x t =
     (if length x < 3 then Inl IndexError
      else Inr [- (x ! 1 + x ! 2), x ! 0 + a * x ! 1, b + x ! 2 * (x ! 0 - c)])"

text \<open>The initial state handed to the integrator when \<open>x0\<close> is truthy.\<close>

fun x0_values :: "x0_arg \<Rightarrow> real list" where
  "x0_values NoX0 = []"
| "x0_values (Scalar v) = [v]"
| "x0_values (Seq xs) = xs"
| "x0_values (Arr xs) = xs"

definition lorenz_init :: "x0_arg \<Rightarrow> (nat \<Rightarrow> real) \<Rightarrow> real list" where
  "lorenz_init x0 rnd =
     (if py_not x0
      then [0.0 + 0.25 * (- 1 + 2 * rnd 0), - 0.01 + 0.25 * (- 1 + 2 * rnd 1),
            9.0 + 0.25 * (- 1 + 2 * rnd 2)]
      else x0_values x0)"

definition roessler_init :: "x0_arg \<Rightarrow> (nat \<Rightarrow> real) \<Rightarrow> real list" where
  "roessler_init x0 rnd =
     (if py_not x0
      then [- 9.0 + 0.25 * (- 1 + 2 * rnd 0), 0.0 + 0.25 * (- 1 + 2 * rnd 1),
            0.0 + 0.25 * (- 1 + 2 * rnd 2)]
      else x0_values x0)"

definition flow_grid :: "nat \<Rightarrow> real \<Rightarrow> real \<Rightarrow> nat \<Rightarrow> error + real list" where
  "flow_grid len step sample discard =
     (let stride = flow_stride sample step
      in linspace 0 (of_int (stride * int (len + discard)) * step) (stride * int (len + discard)))"

definition flow_sample ::
  "solver \<Rightarrow> deriv \<Rightarrow> real list \<Rightarrow> nat \<Rightarrow> real \<Rightarrow> real \<Rightarrow> nat
     \<Rightarrow> error + real list \<times> real list list" where
  "flow_sample odeint f y0 len step sample discard =
     (let stride = flow_stride sample step in
      case flow_grid len step sample discard of
        Inl e \<Rightarrow> Inl e
      | Inr t \<Rightarrow>
         (case py_slice_from t (int discard * stride) stride of
            Inl e \<Rightarrow> Inl e
          | Inr ts \<Rightarrow>
             (case odeint f y0 t of
                Inl e \<Rightarrow> Inl e
              | Inr ys \<Rightarrow>
                 (case py_slice_from ys (int discard * stride) stride of
                    Inl e \<Rightarrow> Inl e
                  | Inr xs \<Rightarrow> Inr (ts, xs)))))"

definition lorenz ::
  "nat \<Rightarrow> x0_arg \<Rightarrow> real \<Rightarrow> real \<Rightarrow> real \<Rightarrow> real \<Rightarrow> real \<Rightarrow> nat \<Rightarrow> (nat \<Rightarrow> real) \<Rightarrow> solver
     \<Rightarrow> error + real list \<times> real list list" where
  "lorenz len x0 sigma beta rho step sample discard rnd odeint =
     (if truth_ambiguous x0 then Inl ValueError
      else let y0 = lorenz_init x0 rnd
        in if step = 0 then Inl ZeroDivisionError
           else flow_sample odeint (lorenz_deriv sigma beta rho) y0 len step sample discard)"

definition roessler ::
  "nat \<Rightarrow> x0_arg \<Rightarrow> real \<Rightarrow> real \<Rightarrow> real \<Rightarrow> real \<Rightarrow> real \<Rightarrow> nat \<Rightarrow> (nat \<Rightarrow> real) \<Rightarrow> solver
     \<Rightarrow> error + real list \<times> real list list" where
  "roessler len x0 a b c step sample discard rnd odeint =
     (if step = 0 then Inl ZeroDivisionError
      else case flow_grid len step sample discard of
             Inl e \<Rightarrow> Inl e
           | Inr t \<Rightarrow>
              if truth_ambiguous x0 then Inl ValueError
              else let y0 = roessler_init x0 rnd
                in flow_sample odeint (roessler_deriv a b c) y0 len step sample discard)"

section \<open>The delay recurrence\<close>

text \<open>
  numpy's \<open>u ** c\<close> on floats, where its value is a finite real: a positive base
  is the real power, \<open>u ** 0\<close> is 1, \<open>0 ** c\<close> is 0 for a positive \<open>c\<close>, and a
  negative base with an integral exponent is the integer power. The two remaining
  cases (\<open>0 ** c\<close> with negative \<open>c\<close>, infinite in numpy, and a negative base with a
  fractional exponent, NaN in numpy) have no real value; the model returns 0
  there and no statement below depends on it.
\<close>

definition float_pow :: "real \<Rightarrow> real \<Rightarrow> real" where
  "float_pow u c =
     (if c = 0 then 1
      else if 0 < u then u powr c
      else if u = 0 then 0
      else if c = of_int \<lfloor>c\<rfloor> then u powi \<lfloor>c\<rfloor>
      else 0)"

text \<open>
  The delayed term \<open>u / (1 + u ** c)\<close>. Where \<open>1 + u ** c\<close> is zero numpy yields
  an infinity (with a warning, no exception), which has no real value: the
  model's quotient is 0 there. The lengths and the errors stated below do not
  depend on that value, and the concrete runs never reach such a point.
\<close>

definition mg_f :: "real \<Rightarrow> real \<Rightarrow> real" where
  "mg_f c u = u / (1 + float_pow u c)"

text \<open>
  The stride \<open>int(n * sample / tau)\<close>: the product and the quotient are float64
  values, each rounded, and the quotient is then truncated.
\<close>

definition mg_stride :: "nat \<Rightarrow> real \<Rightarrow> real \<Rightarrow> int" where
  "mg_stride n sample tau = py_int (fl64 (fl64 (real n * sample) / tau))"

definition mg_A :: "real \<Rightarrow> real \<Rightarrow> nat \<Rightarrow> real" where
  "mg_A b tau n = (2 * real n - b * tau) / (2 * real n + b * tau)"

definition mg_B :: "real \<Rightarrow> real \<Rightarrow> real \<Rightarrow> nat \<Rightarrow> real" where
  "mg_B a b tau n = a * tau / (2 * real n + b * tau)"

text \<open>One pass of the loop body \<open>x[i + 1] = A * x[i] + B * (f(x[i - n]) + f(x[i - n + 1]))\<close>.\<close>

definition mg_step :: "real \<Rightarrow> real \<Rightarrow> real \<Rightarrow> int \<Rightarrow> int \<Rightarrow> real list \<Rightarrow> error + real list" where
  "mg_step A B c n i x =
     (case py_get x i of
        Inl e \<Rightarrow> Inl e
      | Inr xi \<Rightarrow>
         (case py_get x (i - n) of
            Inl e \<Rightarrow> Inl e
          | Inr u \<Rightarrow>
             (case py_get x (i - n + 1) of
                Inl e \<Rightarrow> Inl e
              | Inr v \<Rightarrow> py_set x (i + 1) (A * xi + B * (mg_f c u + mg_f c v)))))"

fun mg_loop :: "real \<Rightarrow> real \<Rightarrow> real \<Rightarrow> int \<Rightarrow> int list \<Rightarrow> real list \<Rightarrow> error + real list" where
  "mg_loop A B c n [] x = Inr x"
| "mg_loop A B c n (i # is) x =
     (case mg_step A B c n i x of Inl e \<Rightarrow> Inl e | Inr x' \<Rightarrow> mg_loop A B c n is x')"

text \<open>The fine-grid length \<open>grids\<close> and the buffer after \<open>x[:n] = ...\<close>.\<close>

definition mg_grids :: "nat \<Rightarrow> real \<Rightarrow> nat \<Rightarrow> real \<Rightarrow> nat \<Rightarrow> int" where
  "mg_grids len tau n sample discard = int n * int discard + mg_stride n sample tau * int len"

definition mg_seed ::
  "x0_arg \<Rightarrow> nat \<Rightarrow> nat \<Rightarrow> (nat \<Rightarrow> real) \<Rightarrow> (nat \<Rightarrow> real) \<Rightarrow> error + real list" where
  "mg_seed x0 n g rnd junk =
     (let x = map junk [0..<g]; m = min n g in
      if truth_ambiguous x0 then Inl ValueError
      else case (if py_not x0
                 then np_broadcast m (map (\<lambda>k. 0.5 + 0.05 * (- 1 + 2 * rnd k)) [0..<n])
                 else np_assign m x0) of
             Inl e \<Rightarrow> Inl e
           | Inr s \<Rightarrow> Inr (s @ drop m x))"

text \<open>
  The whole buffer after the loop, before the final slice. The two coefficients
  are quotients of Python floats by \<open>2.0 * n + b * tau\<close>, which raise
  ZeroDivisionError when that float64 value (the two products and the sum each
  rounded) is zero.
\<close>

definition mg_buffer ::
  "nat \<Rightarrow> x0_arg \<Rightarrow> real \<Rightarrow> real \<Rightarrow> real \<Rightarrow> real \<Rightarrow> nat \<Rightarrow> real \<Rightarrow> nat \<Rightarrow> (nat \<Rightarrow> real)
     \<Rightarrow> (nat \<Rightarrow> real) \<Rightarrow> error + real list" where
  "mg_buffer len x0 a b c tau n sample discard rnd junk =
     (if tau = 0 then Inl ZeroDivisionError
      else let grids = mg_grids len tau n sample discard in
        if grids < 0 then Inl ValueError
        else case mg_seed x0 n (nat grids) rnd junk of
               Inl e \<Rightarrow> Inl e
             | Inr x \<Rightarrow>
                if fl64 (fl64 (2 * real n) + fl64 (b * tau)) = 0 then Inl ZeroDivisionError
                else mg_loop (mg_A b tau n) (mg_B a b tau n) c (int n) [int n - 1..grids - 2] x)"

definition mackey_glass ::
  "nat \<Rightarrow> x0_arg \<Rightarrow> real \<Rightarrow> real \<Rightarrow> real \<Rightarrow> real \<Rightarrow> nat \<Rightarrow> real \<Rightarrow> nat \<Rightarrow> (nat \<Rightarrow> real)
     \<Rightarrow> (nat \<Rightarrow> real) \<Rightarrow> error + real list" where
  "mackey_glass len x0 a b c tau n sample discard rnd junk =
     (case mg_buffer len x0 a b c tau n sample discard rnd junk of
        Inl e \<Rightarrow> Inl e
      | Inr x \<Rightarrow> py_slice_from x (int n * int discard) (mg_stride n sample tau))"

section \<open>The noise synthesizer\<close>

text \<open>
  IEEE values for the last two lines of \<open>falpha\<close>, where the source divides by a
  standard deviation that can be zero: a finite value, the two infinities, NaN.
  numpy does not raise on a float division by zero; it returns an infinity or NaN.
\<close>

datatype fval = Fin real | PInf | NInf | NaN

fun fadd :: "fval \<Rightarrow> fval \<Rightarrow> fval" where
  "fadd NaN y = NaN"
| "fadd x NaN = NaN"
| "fadd (Fin x) (Fin y) = Fin (x + y)"
| "fadd PInf NInf = NaN"
| "fadd NInf PInf = NaN"
| "fadd PInf y = PInf"
| "fadd NInf y = NInf"
| "fadd (Fin x) y = y"

fun fneg :: "fval \<Rightarrow> fval" where
  "fneg (Fin x) = Fin (- x)"
| "fneg PInf = NInf"
| "fneg NInf = PInf"
| "fneg NaN = NaN"

definition fsub :: "fval \<Rightarrow> fval \<Rightarrow> fval" where
  "fsub x y = fadd x (fneg y)"

definition signed_inf :: "real \<Rightarrow> fval" where
  "signed_inf s = (if s = 0 then NaN else if 0 < s then PInf else NInf)"

fun fsgn :: "fval \<Rightarrow> real" where
  "fsgn (Fin x) = sgn x"
| "fsgn PInf = 1"
| "fsgn NInf = - 1"
| "fsgn NaN = 0"

fun fmul :: "fval \<Rightarrow> fval \<Rightarrow> fval" where
  "fmul NaN y = NaN"
| "fmul x NaN = NaN"
| "fmul (Fin x) (Fin y) = Fin (x * y)"
| "fmul x y = signed_inf (fsgn x * fsgn y)"

text \<open>Division; the only zero divisor the source can produce is the positive zero.\<close>

fun fdiv :: "fval \<Rightarrow> fval \<Rightarrow> fval" where
  "fdiv NaN y = NaN"
| "fdiv x NaN = NaN"
| "fdiv (Fin x) (Fin y) = (if y = 0 then signed_inf x else Fin (x / y))"
| "fdiv (Fin x) y = Fin 0"
| "fdiv x (Fin y) = signed_inf (fsgn x * (if y < 0 then - 1 else 1))"
| "fdiv x y = NaN"

definition fsqrt :: "real \<Rightarrow> fval" where
  "fsqrt v = (if v < 0 then NaN else Fin (sqrt v))"

definition fmean :: "fval list \<Rightarrow> fval" where
  "fmean xs = fdiv (foldl fadd (Fin 0) xs) (Fin (real (length xs)))"

text \<open>\<open>np.mean\<close>, \<open>np.var\<close> and \<open>np.std\<close> of a finite sequence (population statistics).\<close>

definition np_mean :: "real list \<Rightarrow> real" where
  "np_mean xs = sum_list xs / real (length xs)"

definition np_var :: "real list \<Rightarrow> real" where
  "np_var xs = np_mean (map (\<lambda>v. \<bar>v - np_mean xs\<bar>\<^sup>2) xs)"

definition np_std :: "real list \<Rightarrow> real" where
  "np_std xs = sqrt (np_var xs)"

text \<open>
  \<open>fft.rfftfreq(n)\<close> for \<open>n > 0\<close>: the frequencies \<open>k * (1 / n)\<close> for
  \<open>k = 0, ..., n // 2\<close>.
\<close>

definition rfftfreq :: "nat \<Rightarrow> real list" where
  "rfftfreq n = map (\<lambda>k. real k * (1 / real n)) [0..<n div 2 + 1]"

text \<open>
  \<open>fft.irfft(y, n)\<close> for \<open>n > 0\<close> and a spectrum of \<open>n // 2 + 1\<close> bins: the
  inverse of the one-sided transform, which takes the real parts of bin 0 and of
  the Nyquist bin.
\<close>

definition irfft :: "complex list \<Rightarrow> nat \<Rightarrow> real list" where
  "irfft y n =
     map (\<lambda>k. (1 / real n) *
              (Re (y ! 0)
               + (\<Sum>m\<leftarrow>[1..<(n + 1) div 2].
                    2 * Re (y ! m * exp (\<i> * of_real (2 * pi * real m * real k / real n))))
               + (if even n then Re (y ! (n div 2)) * (- 1) ^ k else 0)))
         [0..<n]"

text \<open>
  The cutoffs \<open>if fl: power[freqs < fl] = 0\<close> and \<open>if fu: power[freqs > fu] = 0\<close>;
  \<open>None\<close> and \<open>0.0\<close> are falsy.
\<close>

fun cut_below :: "real option \<Rightarrow> real list \<Rightarrow> real list \<Rightarrow> real list" where
  "cut_below None freqs pw = pw"
| "cut_below (Some v) freqs pw =
     (if v = 0 then pw else map2 (\<lambda>f p. if f < v then 0 else p) freqs pw)"

fun cut_above :: "real option \<Rightarrow> real list \<Rightarrow> real list \<Rightarrow> real list" where
  "cut_above None freqs pw = pw"
| "cut_above (Some v) freqs pw =
     (if v = 0 then pw else map2 (\<lambda>f p. if v < f then 0 else p) freqs pw)"

text \<open>The power per bin after \<open>np.insert(power, 0, 0)\<close> and the two cutoffs.\<close>

definition falpha_power :: "nat \<Rightarrow> real \<Rightarrow> real option \<Rightarrow> real option \<Rightarrow> real list" where
  "falpha_power len alpha fl fu =
     (let freqs = rfftfreq len;
          power = 0 # map (\<lambda>f. float_pow f (- alpha)) (tl freqs)
      in cut_above fu freqs (cut_below fl freqs power))"

text \<open>The spectrum \<open>y\<close> with random phases and the real Nyquist bin.\<close>

definition falpha_spectrum ::
  "nat \<Rightarrow> real \<Rightarrow> real option \<Rightarrow> real option \<Rightarrow> (nat \<Rightarrow> real) \<Rightarrow> complex list" where
  "falpha_spectrum len alpha fl fu rnd =
     (let power = falpha_power len alpha fl fu;
          phase = map (\<lambda>k. 2 * pi * rnd k) [0..<length (rfftfreq len)];
          y = map2 (\<lambda>p ph. of_real (sqrt p) * exp (\<i> * of_real ph)) power phase
      in if len mod 2 = 0
         then y[length y - 1 := of_real (cmod (y ! (length y - 1) * of_real (sqrt 2)))]
         else y)"

text \<open>The sequence \<open>x\<close> before the rescaling.\<close>

definition falpha_signal ::
  "nat \<Rightarrow> real \<Rightarrow> real option \<Rightarrow> real option \<Rightarrow> (nat \<Rightarrow> real) \<Rightarrow> real list" where
  "falpha_signal len alpha fl fu rnd = irfft (falpha_spectrum len alpha fl fu rnd) len"

text \<open>\<open>x = np.sqrt(var) * x / np.std(x); return mean + x - np.mean(x)\<close>.\<close>

definition rescale :: "real \<Rightarrow> real \<Rightarrow> real list \<Rightarrow> fval list" where
  "rescale mean var x =
     (let x1 = map (\<lambda>v. fdiv (fmul (fsqrt var) (Fin v)) (Fin (np_std x))) x
      in map (\<lambda>v. fsub (fadd (Fin mean) v) (fmean x1)) x1)"

definition falpha ::
  "nat \<Rightarrow> real \<Rightarrow> real option \<Rightarrow> real option \<Rightarrow> real \<Rightarrow> real \<Rightarrow> (nat \<Rightarrow> real) \<Rightarrow> error + fval list" where
  "falpha len alpha fl fu mean var rnd =
     (if len = 0 then Inl ZeroDivisionError
      else Inr (rescale mean var (falpha_signal len alpha fl fu rnd)))"

section \<open>Concrete streams used in the examples\<close>

text \<open>
  A random stream whose every draw is 0 (a value \<open>np.random.random\<close> can return),
  fresh buffers that hold zeros, fresh buffers that hold ones, and an integrator
  that succeeds and returns the initial state at every grid point.
\<close>

definition zeros :: "nat \<Rightarrow> real" where
  "zeros k = 0"

definition ones :: "nat \<Rightarrow> real" where
  "ones k = 1"

definition zero_rows :: "nat \<Rightarrow> real \<times> real" where
  "zero_rows k = (0, 0)"

definition hold_solver :: solver where
  "hold_solver f y0 t = Inr (map (\<lambda>u. y0) t)"

section \<open>Predicates used to state the properties\<close>

text \<open>
  An initial condition the seeding of \<open>d\<close> slots accepts: none, a number, a list
  or tuple of 0, 1 or \<open>d\<close> numbers, an ndarray of one element. And an
  integrator call that returns one state per grid point.
\<close>

fun x0_fits :: "nat \<Rightarrow> x0_arg \<Rightarrow> bool" where
  "x0_fits d NoX0 = True"
| "x0_fits d (Scalar v) = True"
| "x0_fits d (Seq xs) = (length xs = 0 \<or> length xs = 1 \<or> length xs = d)"
| "x0_fits d (Arr xs) = (length xs = 1)"

definition solver_returns :: "solver \<Rightarrow> deriv \<Rightarrow> real list \<Rightarrow> real list \<Rightarrow> bool" where
  "solver_returns odeint f y0 t = (\<exists>ys. odeint f y0 t = Inr ys \<and> length ys = length t)"

section \<open>Rounding to float64\<close>

lemma pow2_powr: "pow2 e = 2 powr of_int e"
  by (simp add: pow2_def powr_real_of_int inverse_eq_divide)

lemma pow2_pos: "0 < pow2 e"
  by (simp add: pow2_def)

text \<open>Once the binade of \<open>x\<close> is known, \<open>fl64 x\<close> is a rounding of a scaled mantissa.\<close>

lemma fl64_eval:
  assumes "pow2 e \<le> \<bar>x\<bar>" and "\<bar>x\<bar> < pow2 (e + 1)" and "- 1022 \<le> e"
  shows "fl64 x = of_int (py_round (x / pow2 (e - 52))) * pow2 (e - 52)"
proof -
  have p: "0 < \<bar>x\<bar>" using assms(1) pow2_pos [of e] by linarith
  have "\<lfloor>log 2 \<bar>x\<bar>\<rfloor> = e"
    using assms(1,2) p by (simp add: floor_log_eq_powr_iff pow2_powr)
  then show ?thesis using p assms(3) by (simp add: fl64_def Let_def)
qed

lemma py_round_nonneg: "0 \<le> y \<Longrightarrow> 0 \<le> py_round y"
  by (simp add: py_round_def)

lemma fl64_nonneg: "0 \<le> x \<Longrightarrow> 0 \<le> fl64 x"
  by (simp add: fl64_def Let_def py_round_nonneg pow2_pos less_imp_le)

lemma fl64_zero: "fl64 0 = 0"
  by (simp add: fl64_def)

lemma fl64_small:
  "fl64 1 = 1" "fl64 (- 1) = - 1" "fl64 (1 / 2) = 1 / 2" "fl64 2 = 2"
  "fl64 (7 / 4) = 7 / 4" "fl64 7 = 7" "fl64 (11 / 4) = 11 / 4" "fl64 4 = 4" "fl64 (- 2) = - 2"
          apply (subst fl64_eval [where e = 0]; simp add: pow2_def py_round_def)
       apply (subst fl64_eval [where e = 0]; simp add: pow2_def py_round_def)
      apply (subst fl64_eval [where e = "- 1"]; simp add: pow2_def py_round_def)
     apply (subst fl64_eval [where e = 1]; simp add: pow2_def py_round_def)
    apply (subst fl64_eval [where e = 0]; simp add: pow2_def py_round_def)
   apply (subst fl64_eval [where e = 2]; simp add: pow2_def py_round_def)
    apply (subst fl64_eval [where e = 1]; simp add: pow2_def py_round_def)
   apply (subst fl64_eval [where e = 2]; simp add: pow2_def py_round_def)
  apply (subst fl64_eval [where e = 1]; simp add: pow2_def py_round_def)
  done

text \<open>
  The literals 0.3, 0.1, 0.03 and 0.001 as float64 values, and their quotients:
  0.3 / 0.1 rounds to the float64 just below 3, while 0.03 / 0.001 rounds to 30.
\<close>

lemma fl64_literals:
  "fl64 (3 / 10) = 5404319552844595 / 18014398509481984"
  "fl64 (1 / 10) = 3602879701896397 / 36028797018963968"
  "fl64 (3 / 100) = 8646911284551352 / 288230376151711744"
  "fl64 (1 / 1000) = 1152921504606847 / 1152921504606846976"
     apply (subst fl64_eval [where e = "- 2"]; simp add: pow2_def py_round_def)
    apply (subst fl64_eval [where e = "- 4"]; simp add: pow2_def py_round_def)
   apply (subst fl64_eval [where e = "- 6"]; simp add: pow2_def py_round_def)
  apply (subst fl64_eval [where e = "- 10"]; simp add: pow2_def py_round_def)
  done

lemma fl64_quotients:
  "fl64 (fl64 (3 / 10) / fl64 (1 / 10)) = 6755399441055743 / 2251799813685248"
  "fl64 (fl64 (3 / 100) / fl64 (1 / 1000)) = 30"
   apply (simp only: fl64_literals)
   apply (subst fl64_eval [where e = 1]; simp add: pow2_def py_round_def)
  apply (simp only: fl64_literals)
  apply (subst fl64_eval [where e = 4]; simp add: pow2_def py_round_def)
  done


section \<open>Values used in the examples\<close>


lemma upt_two: "[0..<2] = [0, 1]" "[0..<Suc (Suc 0)] = [0, 1]"
  by (simp_all add: upt_rec)

lemma mg_f_values: "mg_f 1 (1 / 2) = 1 / 3" "mg_f 1 0 = 0"
  by (simp_all add: mg_f_def float_pow_def)

lemma mg_f_more: "mg_f 1 1 = 1 / 2" "mg_f 1 (3 / 2) = 3 / 5" "mg_f 1 2 = 2 / 3"
  "mg_f 1 (13 / 5) = 13 / 18"
  by (simp_all add: mg_f_def float_pow_def)

lemma mg_unit_coeffs: "mg_A 0 1 1 = 1" "mg_B 2 0 1 1 = 1"
  by (simp_all add: mg_A_def mg_B_def)

lemma run_seed: "mg_seed (Seq [1]) 1 3 zeros zeros = Inr [1, 0, 0]"
  "mg_seed (Seq [1]) 1 3 zeros ones = Inr [1, 1, 1]"
  by (simp_all add: mg_seed_def Let_def np_broadcast_def zeros_def ones_def upt_rec
      numeral_3_eq_3)

lemma run_loop: "mg_loop 1 1 1 1 [0, 1] [1, 0, 0] = Inr [1, 3 / 2, 13 / 5]"
  "mg_loop 1 1 1 1 [0, 1] [1, 1, 1] = Inr [1, 2, 19 / 6]"
  by (simp_all add: mg_step_def py_get_def py_set_def mg_f_values mg_f_more)

lemma linspace_six: "linspace 0 24 6 = Inr [0, 24 / 5, 48 / 5, 72 / 5, 96 / 5, 24]"
  by (simp add: linspace_def upt_rec numeral_eq_Suc)

lemma linspace_nine: "linspace 0 36 9 = Inr [0, 9 / 2, 9, 27 / 2, 18, 45 / 2, 27, 63 / 2, 36]"
  by (simp add: linspace_def upt_rec numeral_eq_Suc)


section \<open>Slices, loops and buffers\<close>

text \<open>
  An iteration \<open>i\<close> of the Mackey-Glass loop writes slot \<open>i + 1\<close> only, so what
  the loop leaves in a slot is what the iteration that wrote it computed, and
  slots below the first index keep the seed. The same holds for the map loops.
\<close>

lemma ceil_div_exact: "0 < st \<Longrightarrow> (st * int k + st - 1) div st = int k" for st :: int
proof -
  assume p: "0 < st"
  have "(st * int k + st - 1) div st = ((st - 1) + int k * st) div st" by (simp add: algebra_simps)
  also have "\<dots> = (st - 1) div st + int k" using p by (subst div_mult_self1) simp_all
  also have "(st - 1) div st = 0" using p by simp
  finally show ?thesis by simp
qed

lemma py_slice_from_length:
  assumes "0 < st" and "0 \<le> off" and "int (length xs) = off + st * int k"
  shows "\<exists>ys. py_slice_from xs off st = Inr ys \<and> length ys = k"
proof -
  have "min off (int (length xs)) = off" using assms by (simp add: min_def)
  moreover have "(int (length xs) - off + st - 1) div st = int k"
    using assms ceil_div_exact [of st k] by simp
  ultimately show ?thesis using assms by (simp add: py_slice_from_def Let_def)
qed

lemma henon_loop_length: "length (henon_loop a b is x) = length x"
  by (induction "is" arbitrary: x) simp_all

lemma ikeda_loop_length: "length (ikeda_loop al be ga mu is x) = length x"
  by (induction "is" arbitrary: x) simp_all

lemma mg_step_in_range:
  assumes "int (length x) = g" and "0 \<le> n" and "n - 1 \<le> i" and "i \<le> g - 2"
  shows "\<exists>x'. mg_step A B c n i x = Inr x' \<and> length x' = length x"
  using assms by (auto simp add: mg_step_def py_get_def py_set_def Let_def)

lemma mg_loop_in_range:
  assumes "int (length x) = g" and "0 \<le> n" and "\<forall>i\<in>set is. n - 1 \<le> i \<and> i \<le> g - 2"
  shows "\<exists>x'. mg_loop A B c n is x = Inr x' \<and> length x' = length x"
  using assms
proof (induction "is" arbitrary: x)
  case Nil
  then show ?case by simp
next
  case (Cons i "is")
  from Cons.prems obtain x1 where s: "mg_step A B c n i x = Inr x1" and l: "length x1 = length x"
    using mg_step_in_range [of x g n i A B c] by auto
  from Cons.IH [of x1] Cons.prems l obtain x' where
    "mg_loop A B c n is x1 = Inr x'" "length x' = length x1" by auto
  with s l show ?case by simp
qed

lemma mg_step_frame:
  assumes "mg_step A B c n i x = Inr x'" and "- 1 \<le> i" and "int k \<le> i"
  shows "x' ! k = x ! k"
  using assms
  by (auto simp add: mg_step_def py_set_def Let_def split: sum.splits if_splits)

lemma mg_step_length:
  assumes "mg_step A B c n i x = Inr x'"
  shows "length x' = length x"
  using assms
  by (auto simp add: mg_step_def py_set_def Let_def split: sum.splits if_splits)

lemma mg_loop_length: "mg_loop A B c n is x = Inr X \<Longrightarrow> length X = length x"
proof (induction "is" arbitrary: x)
  case Nil
  then show ?case by simp
next
  case (Cons i "is")
  then show ?case by (auto split: sum.splits dest: mg_step_length)
qed

lemma mg_loop_frame:
  assumes "mg_loop A B c n is x = Inr X" and "\<forall>i\<in>set is. - 1 \<le> i \<and> int k \<le> i"
  shows "X ! k = x ! k"
  using assms
proof (induction "is" arbitrary: x)
  case Nil
  then show ?case by simp
next
  case (Cons i "is")
  from Cons.prems(1) obtain x1 where s: "mg_step A B c n i x = Inr x1"
      and l: "mg_loop A B c n is x1 = Inr X"
    by (auto split: sum.splits)
  have "X ! k = x1 ! k" using Cons.IH [OF l] Cons.prems(2) by simp
  also have "x1 ! k = x ! k" using mg_step_frame [OF s] Cons.prems(2) by simp
  finally show ?case .
qed

lemma mg_step_value:
  assumes "mg_step A B c n i x = Inr x'" and "n \<le> i" and "1 \<le> n"
  shows "x' ! nat (i + 1) =
           A * x ! nat i + B * (mg_f c (x ! nat (i - n)) + mg_f c (x ! nat (i - n + 1)))"
  using assms
  by (auto simp add: mg_step_def py_set_def py_get_def Let_def split: sum.splits if_splits)

lemma mg_step_first_value:
  assumes "mg_step A B c n (n - 1) x = Inr x'" and "1 \<le> n"
  shows "x' ! nat n =
           A * x ! nat (n - 1) + B * (mg_f c (x ! (length x - 1)) + mg_f c (x ! 0))"
  using assms
  by (auto simp add: mg_step_def py_set_def py_get_def Let_def nat_diff_distrib
      split: sum.splits if_splits)

lemma mg_loop_recurrence:
  assumes "mg_loop A B c n [lo..hi] x = Inr X" and "1 \<le> n" and "n \<le> lo"
    and "lo \<le> i" and "i \<le> hi"
  shows "X ! nat (i + 1) =
           A * X ! nat i + B * (mg_f c (X ! nat (i - n)) + mg_f c (X ! nat (i - n + 1)))"
  using assms
proof (induction "nat (hi + 1 - lo)" arbitrary: lo x)
  case 0
  then show ?case by simp
next
  case (Suc m)
  have le: "lo \<le> hi" using Suc.prems by simp
  from Suc.prems(1) le obtain x1 where s: "mg_step A B c n lo x = Inr x1"
      and l: "mg_loop A B c n [lo + 1..hi] x1 = Inr X"
    by (auto simp: upto_rec1 split: sum.splits)
  show ?case
  proof (cases "i = lo")
    case True
    have fr: "X ! k = x1 ! k" if "int k \<le> lo + 1" for k
      using mg_loop_frame [OF l, of k] that Suc.prems(2,3) by auto
    have st: "x1 ! k = x ! k" if "int k \<le> lo" for k
      using mg_step_frame [OF s, of k] that Suc.prems(2,3) by auto
    have lo0: "0 \<le> lo" "0 \<le> lo - n" using Suc.prems(2,3) by simp_all
    have a: "X ! nat (lo + 1) = x1 ! nat (lo + 1)" using fr [of "nat (lo + 1)"] lo0 by simp
    have b: "X ! nat lo = x ! nat lo" using fr [of "nat lo"] st [of "nat lo"] lo0 by simp
    have c: "X ! nat (lo - n) = x ! nat (lo - n)"
      using fr [of "nat (lo - n)"] st [of "nat (lo - n)"] lo0 Suc.prems(2) by simp
    have d: "X ! nat (lo - n + 1) = x ! nat (lo - n + 1)"
      using fr [of "nat (lo - n + 1)"] st [of "nat (lo - n + 1)"] lo0 Suc.prems(2) by simp
    show ?thesis
      unfolding True a b c d using mg_step_value [OF s Suc.prems(3,2)] .
  next
    case False
    have m: "m = nat (hi + 1 - (lo + 1))" using Suc.hyps(2) by simp
    show ?thesis
      using Suc.hyps(1) [OF m l Suc.prems(2)] Suc.prems(3,4,5) False by simp
  qed
qed

lemma np_broadcast_length: "np_broadcast m src = Inr s \<Longrightarrow> length s = m"
  by (auto simp: np_broadcast_def split: if_splits)

lemma np_assign_length: "np_assign m x0 = Inr s \<Longrightarrow> length s = m"
  by (cases x0) (auto dest: np_broadcast_length)

lemma mg_seed_shape:
  assumes "mg_seed x0 n g rnd junk = Inr x"
  shows "length x = g" and "n \<le> k \<Longrightarrow> k < g \<Longrightarrow> x ! k = junk k"
proof -
  define m where "m = min n g"
  define r where "r = (if py_not x0
            then np_broadcast m (map (\<lambda>k. 0.5 + 0.05 * (- 1 + 2 * rnd k)) [0..<n])
            else np_assign m x0)"
  from assms obtain s where rs: "r = Inr s" and x: "x = s @ drop m (map junk [0..<g])"
    unfolding mg_seed_def Let_def m_def [symmetric] r_def [symmetric]
    by (auto split: sum.splits if_splits)
  have s: "length s = m"
    using rs unfolding r_def by (auto split: if_splits dest: np_broadcast_length np_assign_length)
  show "length x = g" using s x by (simp add: m_def)
  show "x ! k = junk k" if "n \<le> k" "k < g"
    using that s x by (simp add: nth_append m_def min_def)
qed

lemma mg_buffer_run:
  assumes "mg_buffer len x0 a b c tau n sample discard rnd junk = Inr X"
  shows "\<exists>x. mg_seed x0 n (nat (mg_grids len tau n sample discard)) rnd junk = Inr x
           \<and> 0 \<le> mg_grids len tau n sample discard
           \<and> mg_loop (mg_A b tau n) (mg_B a b tau n) c (int n)
                [int n - 1..mg_grids len tau n sample discard - 2] x = Inr X"
  using assms
  by (auto simp add: mg_buffer_def Let_def split: if_splits sum.splits)

lemma mg_buffer_split:
  assumes "mg_buffer len x0 a b c tau n sample discard rnd junk = Inr X"
    and "1 \<le> n" and "int n < mg_grids len tau n sample discard"
  shows "\<exists>x x1. mg_seed x0 n (nat (mg_grids len tau n sample discard)) rnd junk = Inr x
           \<and> mg_step (mg_A b tau n) (mg_B a b tau n) c (int n) (int n - 1) x = Inr x1
           \<and> mg_loop (mg_A b tau n) (mg_B a b tau n) c (int n)
                [int n..mg_grids len tau n sample discard - 2] x1 = Inr X"
proof -
  define g where "g = mg_grids len tau n sample discard"
  from mg_buffer_run [OF assms(1)] obtain x where
    x: "mg_seed x0 n (nat g) rnd junk = Inr x"
    and l: "mg_loop (mg_A b tau n) (mg_B a b tau n) c (int n) [int n - 1..g - 2] x = Inr X"
    unfolding g_def by blast
  have "[int n - 1..g - 2] = (int n - 1) # [int n..g - 2]"
    using assms(3) by (simp add: g_def upto_rec1)
  with l obtain x1 where
    "mg_step (mg_A b tau n) (mg_B a b tau n) c (int n) (int n - 1) x = Inr x1"
    "mg_loop (mg_A b tau n) (mg_B a b tau n) c (int n) [int n..g - 2] x1 = Inr X"
    by (auto split: sum.splits)
  with x show ?thesis unfolding g_def by blast
qed

lemma mg_buffer_recurrence:
  assumes "mg_buffer len x0 a b c tau n sample discard rnd junk = Inr X"
    and "1 \<le> n" and "int n \<le> i" and "i \<le> mg_grids len tau n sample discard - 2"
  shows "X ! nat (i + 1) =
           mg_A b tau n * X ! nat i
           + mg_B a b tau n * (mg_f c (X ! nat (i - int n)) + mg_f c (X ! nat (i - int n + 1)))"
proof -
  have "int n < mg_grids len tau n sample discard" using assms(3,4) by simp
  from mg_buffer_split [OF assms(1,2) this] obtain x1 where
    "mg_loop (mg_A b tau n) (mg_B a b tau n) c (int n)
       [int n..mg_grids len tau n sample discard - 2] x1 = Inr X"
    by blast
  then show ?thesis
    using mg_loop_recurrence [of _ _ c "int n" "int n" _ x1 X i] assms(2,3,4) by simp
qed




section \<open>Sampling strides\<close>

lemma py_slice_from_nth:
  assumes "py_slice_from xs off st = Inr ys" and "0 < st" and "0 \<le> off" and "k < length ys"
  shows "ys ! k = xs ! nat (off + int k * st)"
proof -
  define n where "n = int (length xs)"
  define s where "s = min off n"
  have ys: "ys = map (\<lambda>k. xs ! nat (s + int k * st)) [0..<nat ((n - s + st - 1) div st)]"
    using assms(1,2,3) by (simp add: py_slice_from_def Let_def n_def s_def)
  have "0 < (n - s + st - 1) div st" using assms(4) ys by simp
  then have "st \<le> n - s + st - 1"
    using assms(2) by (simp add: pos_imp_zdiv_pos_iff)
  then have "s = off" by (auto simp add: s_def min_def split: if_splits)
  then show ?thesis using assms(4) ys by simp
qed

lemma flow_stride_floor:
  assumes "0 < step" and "0 < sample"
  shows "flow_stride sample step = \<lfloor>fl64 (sample / step)\<rfloor>" and "0 \<le> flow_stride sample step"
proof -
  have "0 \<le> fl64 (sample / step)" using assms by (intro fl64_nonneg) simp
  then show "flow_stride sample step = \<lfloor>fl64 (sample / step)\<rfloor>" "0 \<le> flow_stride sample step"
    by (simp_all add: flow_stride_def py_int_def)
qed

lemma mg_stride_floor:
  assumes "0 < tau" and "0 < sample"
  shows "mg_stride n sample tau = \<lfloor>fl64 (fl64 (real n * sample) / tau)\<rfloor>"
    and "0 \<le> mg_stride n sample tau"
proof -
  have "0 \<le> fl64 (real n * sample)" using assms by (intro fl64_nonneg) simp
  then have "0 \<le> fl64 (fl64 (real n * sample) / tau)" using assms by (intro fl64_nonneg) simp
  then show "mg_stride n sample tau = \<lfloor>fl64 (fl64 (real n * sample) / tau)\<rfloor>"
    "0 \<le> mg_stride n sample tau"
    by (simp_all add: mg_stride_def py_int_def)
qed

lemma flow_sample_elements:
  assumes "flow_sample odeint f y0 len step sample discard = Inr (ts, xs)"
    and "0 \<le> flow_stride sample step"
  shows "1 \<le> flow_stride sample step
     \<and> (\<exists>t ys. linspace 0 (of_int (flow_stride sample step * int (len + discard)) * step)
                  (flow_stride sample step * int (len + discard)) = Inr t
          \<and> odeint f y0 t = Inr ys
          \<and> (\<forall>k<length ts. ts ! k = t ! ((discard + k) * nat (flow_stride sample step)))
          \<and> (\<forall>k<length xs. xs ! k = ys ! ((discard + k) * nat (flow_stride sample step))))"
proof -
  define st where "st = flow_stride sample step"
  from assms(1) obtain t ys where
    t: "linspace 0 (of_int (st * int (len + discard)) * step) (st * int (len + discard)) = Inr t"
    and a: "py_slice_from t (int discard * st) st = Inr ts"
    and y: "odeint f y0 t = Inr ys"
    and b: "py_slice_from ys (int discard * st) st = Inr xs"
    unfolding flow_sample_def flow_grid_def Let_def st_def [symmetric]
    by (auto split: sum.splits)
  have "st \<noteq> 0" using a by (auto simp: py_slice_from_def)
  then have pos: "0 < st" using assms(2) by (simp add: st_def)
  have off: "0 \<le> int discard * st" using pos by simp
  have idx: "nat (int discard * st + int k * st) = (discard + k) * nat st" for k
    using pos by (simp add: nat_mult_distrib nat_add_distrib algebra_simps)
  have "ts ! k = t ! ((discard + k) * nat st)" if "k < length ts" for k
    using py_slice_from_nth [OF a pos off that] by (simp add: idx)
  moreover have "xs ! k = ys ! ((discard + k) * nat st)" if "k < length xs" for k
    using py_slice_from_nth [OF b pos off that] by (simp add: idx)
  ultimately show ?thesis using t y pos unfolding st_def by auto
qed

lemma mackey_glass_elements:
  assumes "mackey_glass len x0 a b c tau n sample discard rnd junk = Inr zs"
    and "0 \<le> mg_stride n sample tau"
  shows "1 \<le> mg_stride n sample tau
     \<and> (\<exists>X. mg_buffer len x0 a b c tau n sample discard rnd junk = Inr X
          \<and> int (length X) = int n * int discard + mg_stride n sample tau * int len
          \<and> (\<forall>k<length zs. zs ! k = X ! (n * discard + k * nat (mg_stride n sample tau))))"
proof -
  define st where "st = mg_stride n sample tau"
  from assms(1) obtain X where
    X: "mg_buffer len x0 a b c tau n sample discard rnd junk = Inr X"
    and a: "py_slice_from X (int n * int discard) st = Inr zs"
    unfolding mackey_glass_def st_def by (auto split: sum.splits)
  have "st \<noteq> 0" using a by (auto simp: py_slice_from_def)
  then have pos: "0 < st" using assms(2) by (simp add: st_def)
  from mg_buffer_run [OF X] obtain x where
    x: "mg_seed x0 n (nat (mg_grids len tau n sample discard)) rnd junk = Inr x"
    and g: "0 \<le> mg_grids len tau n sample discard"
    and l: "mg_loop (mg_A b tau n) (mg_B a b tau n) c (int n)
              [int n - 1..mg_grids len tau n sample discard - 2] x = Inr X"
    by blast
  have "length X = nat (mg_grids len tau n sample discard)"
    using mg_loop_length [OF l] mg_seed_shape(1) [OF x] by simp
  then have len: "int (length X) = int n * int discard + st * int len"
    using g by (simp add: mg_grids_def st_def)
  have idx: "nat (int n * int discard + int k * st) = n * discard + k * nat st" for k
    using pos by (simp add: nat_mult_distrib nat_add_distrib)
  have "zs ! k = X ! (n * discard + k * nat st)" if "k < length zs" for k
    using py_slice_from_nth [OF a pos _ that] by (simp add: idx)
  then show ?thesis using X len pos unfolding st_def by auto
qed

lemma stride_run_values:
  "flow_stride 11 4 = 2" "mg_stride 1 7 4 = 1" "mg_grids 2 4 1 7 1 = 3"
  "mg_A 0 4 1 = 1" "mg_B (1 / 2) 0 4 1 = 1"
  by (simp_all add: flow_stride_def mg_stride_def mg_grids_def py_int_def fl64_small
      mg_A_def mg_B_def)

lemma stride_run_flow:
  "flow_sample hold_solver f [1, 1, 1] 2 4 11 1 = Inr ([48 / 5, 96 / 5], [[1, 1, 1], [1, 1, 1]])"
  using stride_run_values linspace_six
  by (simp add: flow_sample_def flow_grid_def hold_solver_def py_slice_from_def upt_rec
      numeral_eq_Suc)

lemma stride_run_lorenz:
  "lorenz 2 (Seq [1, 1, 1]) 10 2 28 4 11 1 zeros hold_solver
     = Inr ([48 / 5, 96 / 5], [[1, 1, 1], [1, 1, 1]])"
  using stride_run_flow by (simp add: lorenz_def lorenz_init_def)

lemma stride_run_roessler:
  "roessler 2 (Seq [1, 1, 1]) (1 / 4) (1 / 4) 6 4 11 1 zeros hold_solver
     = Inr ([48 / 5, 96 / 5], [[1, 1, 1], [1, 1, 1]])"
  using stride_run_flow stride_run_values linspace_six
  by (simp add: roessler_def roessler_init_def flow_grid_def)

lemma stride_run_buffer:
  "mg_buffer 2 (Seq [1]) (1 / 2) 0 1 4 1 7 1 zeros zeros = Inr [1, 3 / 2, 13 / 5]"
  using stride_run_values run_seed run_loop by (simp add: mg_buffer_def upto_rec1 fl64_small fl64_zero)

lemma stride_run_mackey_glass:
  "mackey_glass 2 (Seq [1]) (1 / 2) 0 1 4 1 7 1 zeros zeros = Inr [3 / 2, 13 / 5]"
  using stride_run_values stride_run_buffer
  by (simp add: mackey_glass_def py_slice_from_def upt_rec numeral_2_eq_2)

lemma stride_of_float_quotient:
  "flow_stride (fl64 (3 / 10)) (fl64 (1 / 10)) = 2"
  "flow_stride (fl64 (3 / 100)) (fl64 (1 / 1000)) = 30"
  by (simp_all add: flow_stride_def fl64_quotients py_int_def)

text \<open>
  C3, as stated: the flow sampler's stride is \<open>round(sample / step)\<close> and the
  Mackey-Glass stride is \<open>round(n * sample / tau)\<close>, to the nearest integer.
  \<open>lorenz\<close> and \<open>roessler\<close> with \<open>length=2, step=4, sample=11, discard=1\<close>
  (and an integrator that returns the initial state everywhere) have ratio 2.75:
  they return the times 48/5 and 96/5, which are points 2 and 4 of a grid of
  \<open>2 * 3\<close> points ending at 24, whereas the nearest integer 3 gives a grid of 9
  points ending at 36 whose points 3 and 6 are 27/2 and 27.
  \<open>mackey_glass(length=2, x0=[1.0], a=0.5, b=0, c=1, tau=4, n=1, sample=7,
  discard=1)\<close> has ratio 1.75: on a zeroed buffer it fills \<open>1 + 1 * 2\<close> slots
  and returns the consecutive slots 1 and 2, whereas the nearest integer is 2.
\<close>

theorem stride_is_not_rounded:
  "py_round (11 / 4) = 3
   \<and> lorenz 2 (Seq [1, 1, 1]) 10 2 28 4 11 1 zeros hold_solver
       = Inr ([48 / 5, 96 / 5], [[1, 1, 1], [1, 1, 1]])
   \<and> roessler 2 (Seq [1, 1, 1]) (1 / 4) (1 / 4) 6 4 11 1 zeros hold_solver
       = Inr ([48 / 5, 96 / 5], [[1, 1, 1], [1, 1, 1]])
   \<and> linspace 0 (of_int (2 * int (2 + 1)) * 4) (2 * int (2 + 1))
       = Inr [0, 24 / 5, 48 / 5, 72 / 5, 96 / 5, 24]
   \<and> linspace 0 (of_int (3 * int (2 + 1)) * 4) (3 * int (2 + 1))
       = Inr [0, 9 / 2, 9, 27 / 2, 18, 45 / 2, 27, 63 / 2, 36]
   \<and> py_round (real 1 * 7 / 4) = 2
   \<and> mg_buffer 2 (Seq [1]) (1 / 2) 0 1 4 1 7 1 zeros zeros = Inr [1, 3 / 2, 13 / 5]
   \<and> mackey_glass 2 (Seq [1]) (1 / 2) 0 1 4 1 7 1 zeros zeros = Inr [3 / 2, 13 / 5]"
  using stride_run_lorenz stride_run_roessler stride_run_buffer stride_run_mackey_glass
    linspace_six linspace_nine
  by (simp add: py_round_def)

text \<open>
  C3, amended: for positive \<open>step\<close>, \<open>sample\<close> and \<open>tau\<close>, the stride of
  \<open>lorenz\<close> and \<open>roessler\<close> is the float64 quotient \<open>sample / step\<close> truncated to
  the integer below it, and the stride of \<open>mackey_glass\<close> is the float64 quotient
  of the float64 product \<open>n * sample\<close> by \<open>tau\<close>, truncated likewise. Whenever a
  generator returns, that stride \<open>s\<close> is at least 1; the flows integrate over a
  grid of \<open>s * (length + discard)\<close> points and return its points
  \<open>(discard + k) * s\<close>, and \<open>mackey_glass\<close> fills \<open>n * discard + s * length\<close>
  slots and returns the slots \<open>n * discard + k * s\<close>.
\<close>

theorem stride_is_truncated_quotient:
  assumes "0 < step" and "0 < sample" and "0 < tau" and "0 < msample"
  shows
    "(lorenz len xf sigma beta rho step sample discard rnd odeint = Inr (ts, xs) \<longrightarrow>
        1 \<le> \<lfloor>fl64 (sample / step)\<rfloor>
        \<and> (\<exists>t ys. linspace 0 (of_int (\<lfloor>fl64 (sample / step)\<rfloor> * int (len + discard)) * step)
                     (\<lfloor>fl64 (sample / step)\<rfloor> * int (len + discard)) = Inr t
             \<and> odeint (lorenz_deriv sigma beta rho) (lorenz_init xf rnd) t = Inr ys
             \<and> (\<forall>k<length ts. ts ! k = t ! ((discard + k) * nat \<lfloor>fl64 (sample / step)\<rfloor>))
             \<and> (\<forall>k<length xs. xs ! k = ys ! ((discard + k) * nat \<lfloor>fl64 (sample / step)\<rfloor>))))
     \<and> (roessler len xf ra rb rc step sample discard rnd odeint = Inr (rts, rxs) \<longrightarrow>
        1 \<le> \<lfloor>fl64 (sample / step)\<rfloor>
        \<and> (\<exists>t ys. linspace 0 (of_int (\<lfloor>fl64 (sample / step)\<rfloor> * int (len + discard)) * step)
                     (\<lfloor>fl64 (sample / step)\<rfloor> * int (len + discard)) = Inr t
             \<and> odeint (roessler_deriv ra rb rc) (roessler_init xf rnd) t = Inr ys
             \<and> (\<forall>k<length rts. rts ! k = t ! ((discard + k) * nat \<lfloor>fl64 (sample / step)\<rfloor>))
             \<and> (\<forall>k<length rxs. rxs ! k = ys ! ((discard + k) * nat \<lfloor>fl64 (sample / step)\<rfloor>))))
     \<and> (mackey_glass len xn ma mb mc tau n msample discard rnd junk = Inr zs \<longrightarrow>
        1 \<le> \<lfloor>fl64 (fl64 (real n * msample) / tau)\<rfloor>
        \<and> (\<exists>X. mg_buffer len xn ma mb mc tau n msample discard rnd junk = Inr X
             \<and> int (length X)
                 = int n * int discard + \<lfloor>fl64 (fl64 (real n * msample) / tau)\<rfloor> * int len
             \<and> (\<forall>k<length zs.
                   zs ! k = X ! (n * discard + k * nat \<lfloor>fl64 (fl64 (real n * msample) / tau)\<rfloor>))))"
proof -
  note fs = flow_stride_floor [OF assms(1,2)]
  note ms = mg_stride_floor [OF assms(3,4), of n]
  have a: "1 \<le> \<lfloor>fl64 (sample / step)\<rfloor>
        \<and> (\<exists>t ys. linspace 0 (of_int (\<lfloor>fl64 (sample / step)\<rfloor> * int (len + discard)) * step)
                     (\<lfloor>fl64 (sample / step)\<rfloor> * int (len + discard)) = Inr t
             \<and> odeint (lorenz_deriv sigma beta rho) (lorenz_init xf rnd) t = Inr ys
             \<and> (\<forall>k<length ts. ts ! k = t ! ((discard + k) * nat \<lfloor>fl64 (sample / step)\<rfloor>))
             \<and> (\<forall>k<length xs. xs ! k = ys ! ((discard + k) * nat \<lfloor>fl64 (sample / step)\<rfloor>)))"
    if "lorenz len xf sigma beta rho step sample discard rnd odeint = Inr (ts, xs)"
  proof -
    from that have "flow_sample odeint (lorenz_deriv sigma beta rho) (lorenz_init xf rnd)
                 len step sample discard = Inr (ts, xs)"
      by (simp add: lorenz_def Let_def split: if_splits)
    from flow_sample_elements [OF this fs(2)] show ?thesis unfolding fs(1) .
  qed
  have b: "1 \<le> \<lfloor>fl64 (sample / step)\<rfloor>
        \<and> (\<exists>t ys. linspace 0 (of_int (\<lfloor>fl64 (sample / step)\<rfloor> * int (len + discard)) * step)
                     (\<lfloor>fl64 (sample / step)\<rfloor> * int (len + discard)) = Inr t
             \<and> odeint (roessler_deriv ra rb rc) (roessler_init xf rnd) t = Inr ys
             \<and> (\<forall>k<length rts. rts ! k = t ! ((discard + k) * nat \<lfloor>fl64 (sample / step)\<rfloor>))
             \<and> (\<forall>k<length rxs. rxs ! k = ys ! ((discard + k) * nat \<lfloor>fl64 (sample / step)\<rfloor>)))"
    if "roessler len xf ra rb rc step sample discard rnd odeint = Inr (rts, rxs)"
  proof -
    from that have "flow_sample odeint (roessler_deriv ra rb rc) (roessler_init xf rnd)
                 len step sample discard = Inr (rts, rxs)"
      by (simp add: roessler_def Let_def split: if_splits sum.splits)
    from flow_sample_elements [OF this fs(2)] show ?thesis unfolding fs(1) .
  qed
  have c: "1 \<le> \<lfloor>fl64 (fl64 (real n * msample) / tau)\<rfloor>
        \<and> (\<exists>X. mg_buffer len xn ma mb mc tau n msample discard rnd junk = Inr X
             \<and> int (length X)
                 = int n * int discard + \<lfloor>fl64 (fl64 (real n * msample) / tau)\<rfloor> * int len
             \<and> (\<forall>k<length zs.
                   zs ! k = X ! (n * discard + k * nat \<lfloor>fl64 (fl64 (real n * msample) / tau)\<rfloor>)))"
    if "mackey_glass len xn ma mb mc tau n msample discard rnd junk = Inr zs"
    using mackey_glass_elements [OF that ms(2)] unfolding ms(1) .
  show ?thesis using a b c by blast
qed

theorem stride_is_truncated_quotient_witness:
  "(0::real) < 4 \<and> (0::real) < 11 \<and> (0::real) < 7
   \<and> lorenz 2 (Seq [1, 1, 1]) 10 2 28 4 11 1 zeros hold_solver
       = Inr ([48 / 5, 96 / 5], [[1, 1, 1], [1, 1, 1]])
   \<and> roessler 2 (Seq [1, 1, 1]) (1 / 4) (1 / 4) 6 4 11 1 zeros hold_solver
       = Inr ([48 / 5, 96 / 5], [[1, 1, 1], [1, 1, 1]])
   \<and> mackey_glass 2 (Seq [1]) (1 / 2) 0 1 4 1 7 1 zeros zeros = Inr [3 / 2, 13 / 5]
   \<and> \<lfloor>fl64 (11 / 4)\<rfloor> = 2 \<and> \<lfloor>fl64 (fl64 (real 1 * 7) / 4)\<rfloor> = 1
   \<and> (\<exists>t. linspace 0 (of_int (\<lfloor>fl64 (11 / 4)\<rfloor> * int (2 + 1)) * 4)
              (\<lfloor>fl64 (11 / 4)\<rfloor> * int (2 + 1)) = Inr t
          \<and> [48 / 5, 96 / 5] ! 0 = t ! ((1 + 0) * nat \<lfloor>fl64 (11 / 4)\<rfloor>)
          \<and> [48 / 5, 96 / 5] ! 1 = t ! ((1 + 1) * nat \<lfloor>fl64 (11 / 4)\<rfloor>))
   \<and> (\<exists>X. mg_buffer 2 (Seq [1]) (1 / 2) 0 1 4 1 7 1 zeros zeros = Inr X
          \<and> int (length X) = int 1 * int 1 + \<lfloor>fl64 (fl64 (real 1 * 7) / 4)\<rfloor> * int 2
          \<and> [3 / 2, 13 / 5] ! 1 = X ! (1 * 1 + 1 * nat \<lfloor>fl64 (fl64 (real 1 * 7) / 4)\<rfloor>))"
proof -
  note t = stride_is_truncated_quotient [where step = 4 and sample = 11 and tau = 4
      and msample = 7 and len = 2 and discard = 1 and xf = "Seq [1, 1, 1]" and sigma = 10
      and beta = 2 and rho = 28 and rnd = zeros and odeint = hold_solver
      and ts = "[48 / 5, 96 / 5]" and xs = "[[1, 1, 1], [1, 1, 1]]"
      and ra = "1 / 4" and rb = "1 / 4" and rc = 6
      and rts = "[48 / 5, 96 / 5]" and rxs = "[[1, 1, 1], [1, 1, 1]]"
      and xn = "Seq [1]" and ma = "1 / 2" and mb = 0 and mc = 1 and n = 1 and junk = zeros
      and zs = "[3 / 2, 13 / 5]"]
  show ?thesis
    using t stride_run_lorenz stride_run_roessler stride_run_mackey_glass stride_run_buffer
      linspace_six
    by (simp add: fl64_small)
qed


section \<open>The Henon map\<close>


text \<open>
  The roundings met by the run with \<open>a = 1.4\<close>, \<open>b = 0.3\<close> from (0, 0): the
  literals, then each square, product, difference and sum.
\<close>

lemma henon_roundings:
  "fl64 (7 / 5) = 3152519739159347 / 2251799813685248"
  "fl64 (3152519739159347 / 2251799813685248) = 3152519739159347 / 2251799813685248"
  "fl64 (- (900719925474099 / 2251799813685248)) = - (900719925474099 / 2251799813685248)"
  "fl64 (811296384146066456669919861801 / 5070602400912917605986812821504) = 720575940379279 / 4503599627370496"
  "fl64 (2271629875608985808459797970813 / 10141204801825835211973625643008) = 2017612633061981 / 9007199254740992"
  "fl64 (6989586621679011 / 9007199254740992) = 6989586621679011 / 9007199254740992"
  "fl64 (5404319552844595 / 18014398509481984) = 5404319552844595 / 18014398509481984"
  "fl64 (19383492796202617 / 18014398509481984) = 2422936599525327 / 2251799813685248"
  "fl64 (5870621765319354830761714456929 / 5070602400912917605986812821504) = 651769945272313 / 562949953421312"
  "fl64 (2054717617861774048155614259611 / 1267650600228229401496703205376) = 7299823387049905 / 4503599627370496"
  "fl64 (- (2796223759679409 / 4503599627370496)) = - (2796223759679409 / 4503599627370496)"
  "fl64 (- (4867778304876399640739444644905 / 40564819207303340847894502572032)) = - (4323455642275675 / 36028797018963968)"
  "fl64 (- (26693245719710947 / 36028797018963968)) = - (6673311429927737 / 9007199254740992)"
              apply (subst fl64_eval [where e = "0"]; simp add: pow2_def py_round_def)
             apply (subst fl64_eval [where e = "0"]; simp add: pow2_def py_round_def)
            apply (subst fl64_eval [where e = "- 2"]; simp add: pow2_def py_round_def)
           apply (subst fl64_eval [where e = "- 3"]; simp add: pow2_def py_round_def)
          apply (subst fl64_eval [where e = "- 3"]; simp add: pow2_def py_round_def)
         apply (subst fl64_eval [where e = "- 1"]; simp add: pow2_def py_round_def)
        apply (subst fl64_eval [where e = "- 2"]; simp add: pow2_def py_round_def)
       apply (subst fl64_eval [where e = "0"]; simp add: pow2_def py_round_def)
      apply (subst fl64_eval [where e = "0"]; simp add: pow2_def py_round_def)
     apply (subst fl64_eval [where e = "0"]; simp add: pow2_def py_round_def)
    apply (subst fl64_eval [where e = "- 1"]; simp add: pow2_def py_round_def)
   apply (subst fl64_eval [where e = "- 4"]; simp add: pow2_def py_round_def)
  apply (subst fl64_eval [where e = "- 1"]; simp add: pow2_def py_round_def)
  done







section \<open>The time grid of the flows\<close>

text \<open>
  C7, as stated: the grid of \<open>stride * (length + discard)\<close> points has spacing
  \<open>step\<close> and stays strictly below \<open>stride * (length + discard) * step\<close>. For
  \<open>length = 2\<close>, \<open>discard = 0\<close>, \<open>step = sample = 1\<close> the stride is 1 and the
  grid is \<open>[0, 2]\<close>: its spacing is 2 and its last point is the bound itself.
\<close>

theorem flow_grid_not_half_open:
  "flow_stride 1 1 = 1 \<and> flow_grid 2 1 1 0 = Inr [0, 2]
     \<and> [0, 2 :: real] ! 1 - [0, 2] ! 0 \<noteq> 1
     \<and> \<not> last [0, 2 :: real] < of_int (flow_stride 1 1 * int (2 + 0)) * 1"
  by (simp add: flow_grid_def flow_stride_def py_int_def fl64_small linspace_def upt_rec)

text \<open>
  C7, amended: when the grid has \<open>N = stride * (length + discard)\<close> points and
  \<open>N\<close> is at least 2, it spans the closed interval from 0 to \<open>N * step\<close>: it
  starts at 0, ends at \<open>N * step\<close>, and consecutive points are
  \<open>N * step / (N - 1)\<close> apart.
\<close>

theorem flow_grid_closed_interval:
  assumes "2 \<le> flow_stride sample step * int (len + discard)"
  shows "\<exists>t. flow_grid len step sample discard = Inr t
           \<and> int (length t) = flow_stride sample step * int (len + discard)
           \<and> t ! 0 = 0
           \<and> last t = of_int (flow_stride sample step * int (len + discard)) * step
           \<and> (\<forall>i. Suc i < length t \<longrightarrow>
                 t ! Suc i - t ! i =
                   of_int (flow_stride sample step * int (len + discard)) * step
                     / (of_int (flow_stride sample step * int (len + discard)) - 1))"
proof -
  define N where "N = flow_stride sample step * int (len + discard)"
  define d where "d = (of_int N * step - 0) / of_int (N - 1)"
  define t where "t = map (\<lambda>i. 0 + real i * d) [0..<nat N]"
  have N2: "2 \<le> N" using assms by (simp add: N_def)
  have "flow_grid len step sample discard = linspace 0 (of_int N * step) N"
    by (simp only: flow_grid_def Let_def N_def)
  also have "\<dots> = Inr t"
    using N2 by (simp add: linspace_def t_def d_def)
  finally have g: "flow_grid len step sample discard = Inr t" .
  have ln: "length t = nat N" by (simp add: t_def)
  have l: "int (length t) = N" using N2 by (simp add: t_def)
  have z: "t ! 0 = 0" using N2 by (simp add: t_def)
  have "t \<noteq> []" using N2 by (auto simp: t_def)
  then have "last t = t ! (nat N - 1)" using ln by (simp add: last_conv_nth)
  also have "\<dots> = real (nat N - 1) * d" using N2 by (simp add: t_def)
  also have "real (nat N - 1) = of_int (N - 1)" using N2 by simp
  also have "of_int (N - 1) * d = of_int N * step" using N2 by (simp add: d_def)
  finally have e: "last t = of_int N * step" .
  have s: "t ! Suc i - t ! i = of_int N * step / (of_int N - 1)" if "Suc i < length t" for i
    using that by (simp add: t_def d_def algebra_simps add_divide_distrib)
  show ?thesis using g l z e s unfolding N_def by blast
qed

theorem flow_grid_closed_interval_witness:
  "(2::int) \<le> flow_stride 1 1 * int (2 + 0) \<and> flow_grid 2 1 1 0 = Inr [0, 2]"
  using flow_grid_closed_interval [of 1 1 2 0]
  by (simp add: flow_grid_def flow_stride_def py_int_def fl64_small linspace_def upt_rec)


section \<open>Mean and variance of the noise\<close>

lemma sum_list_affine:
  "sum_list (map (\<lambda>v. c + k * v) xs) = c * real (length xs) + k * sum_list xs" for c k :: real
  by (induction xs) (simp_all add: algebra_simps)

lemma np_mean_affine:
  assumes "xs \<noteq> []"
  shows "np_mean (map (\<lambda>v. c + k * v) xs) = c + k * np_mean xs"
  using assms by (simp add: np_mean_def sum_list_affine add_divide_distrib)

lemma np_var_affine:
  assumes "xs \<noteq> []"
  shows "np_var (map (\<lambda>v. c + k * v) xs) = k\<^sup>2 * np_var xs"
proof -
  have "np_var (map (\<lambda>v. c + k * v) xs)
          = np_mean (map (\<lambda>v. \<bar>(c + k * v) - (c + k * np_mean xs)\<bar>\<^sup>2) xs)"
    by (simp add: np_var_def np_mean_affine [OF assms] comp_def)
  also have "(\<lambda>v. \<bar>(c + k * v) - (c + k * np_mean xs)\<bar>\<^sup>2)
               = (\<lambda>v. 0 + k\<^sup>2 * \<bar>v - np_mean xs\<bar>\<^sup>2)"
    by (rule ext) (simp add: algebra_simps power2_eq_square)
  also have "np_mean (map (\<lambda>v. 0 + k\<^sup>2 * \<bar>v - np_mean xs\<bar>\<^sup>2) xs)
               = k\<^sup>2 * np_mean (map (\<lambda>v. \<bar>v - np_mean xs\<bar>\<^sup>2) xs)"
    using np_mean_affine [of "map (\<lambda>v. \<bar>v - np_mean xs\<bar>\<^sup>2) xs" 0 "k\<^sup>2"] assms
    by (simp add: comp_def)
  finally show ?thesis by (simp add: np_var_def)
qed

lemma np_var_nonneg: "0 \<le> np_var xs"
proof -
  have "0 \<le> sum_list (map (\<lambda>v. \<bar>v - np_mean xs\<bar>\<^sup>2) xs)"
    by (rule sum_list_nonneg) auto
  then show ?thesis by (simp add: np_var_def np_mean_def [of "map f xs" for f])
qed

lemma foldl_fadd_Fin: "foldl fadd (Fin s) (map Fin ys) = Fin (s + sum_list ys)"
  by (induction ys arbitrary: s) (simp_all add: algebra_simps)

lemma fmean_Fin: "ys \<noteq> [] \<Longrightarrow> fmean (map Fin ys) = Fin (np_mean ys)"
  by (simp add: fmean_def foldl_fadd_Fin np_mean_def)

lemma rescale_finite:
  assumes "0 \<le> var" and "np_std x \<noteq> 0" and "x \<noteq> []"
  shows "rescale mean var x =
           map Fin (map (\<lambda>v. (mean - sqrt var / np_std x * np_mean x) + sqrt var / np_std x * v) x)"
proof -
  define k where "k = sqrt var / np_std x"
  have x1: "map (\<lambda>v. fdiv (fmul (fsqrt var) (Fin v)) (Fin (np_std x))) x
              = map Fin (map (\<lambda>v. 0 + k * v) x)"
    using assms(1,2) by (simp add: fsqrt_def k_def)
  have m: "fmean (map Fin (map (\<lambda>v. 0 + k * v) x)) = Fin (k * np_mean x)"
    using fmean_Fin [of "map (\<lambda>v. 0 + k * v) x"] np_mean_affine [OF assms(3), of 0 k] assms(3)
    by simp
  show ?thesis
    unfolding rescale_def Let_def x1 m k_def [symmetric]
    by (simp add: fsub_def algebra_simps)
qed

lemma rescale_statistics:
  assumes "0 \<le> var" and "np_std x \<noteq> 0" and "x \<noteq> []"
  shows "\<exists>zs. rescale mean var x = map Fin zs \<and> length zs = length x
            \<and> np_mean zs = mean \<and> np_var zs = var"
proof -
  define k where "k = sqrt var / np_std x"
  define zs where "zs = map (\<lambda>v. (mean - k * np_mean x) + k * v) x"
  have r: "rescale mean var x = map Fin zs"
    using rescale_finite [OF assms] by (simp add: zs_def k_def)
  have m: "np_mean zs = mean"
    unfolding zs_def using np_mean_affine [OF assms(3)] by simp
  have v0: "np_var x \<noteq> 0" using assms(2) by (auto simp: np_std_def)
  have "(np_std x)\<^sup>2 = np_var x" by (simp add: np_std_def np_var_nonneg)
  then have "k\<^sup>2 = var / np_var x"
    using assms(1) by (simp add: k_def power_divide)
  then have v: "np_var zs = var"
    unfolding zs_def using np_var_affine [OF assms(3)] v0 by simp
  have "length zs = length x" by (simp add: zs_def)
  with r m v show ?thesis by blast
qed

lemma falpha_signal_length: "length (falpha_signal len alpha fl fu rnd) = len"
  by (simp add: falpha_signal_def irfft_def)

lemma rfftfreq_two: "rfftfreq 2 = [0, 1 / 2]"
  by (simp add: rfftfreq_def upt_two)

lemma two_point_power: "falpha_power 2 0 None None = [0, 1]"
  by (simp add: falpha_power_def rfftfreq_two float_pow_def)

lemma two_point_spectrum: "falpha_spectrum 2 0 None None zeros = [0, of_real (sqrt 2)]"
  by (simp add: falpha_spectrum_def two_point_power rfftfreq_two zeros_def upt_two norm_mult)

lemma two_point_signal: "falpha_signal 2 0 None None zeros = [sqrt 2 / 2, - (sqrt 2 / 2)]"
  by (simp add: falpha_signal_def two_point_spectrum irfft_def upt_two)

lemma two_point_std: "np_std [sqrt 2 / 2, - (sqrt 2 / 2)] = sqrt (1 / 2)"
  by (simp add: np_std_def np_var_def np_mean_def power2_eq_square)

text \<open>
  C8: whenever the sequence before the rescaling has a nonzero standard
  deviation (and \<open>var\<close> is a variance, that is non-negative), every value
  \<open>falpha\<close> returns is finite, there are \<open>length\<close> of them, their mean
  (\<open>np.mean\<close>) is exactly \<open>mean\<close> and their variance (\<open>np.var\<close>) is exactly
  \<open>var\<close>, in real arithmetic, for every \<open>alpha\<close>, cutoffs and random phases.
\<close>

theorem falpha_mean_and_variance:
  assumes "0 < len" and "0 \<le> var" and "np_std (falpha_signal len alpha fl fu rnd) \<noteq> 0"
  shows "\<exists>zs. falpha len alpha fl fu mean var rnd = Inr (map Fin zs) \<and> length zs = len
            \<and> np_mean zs = mean \<and> np_var zs = var"
proof -
  have "falpha_signal len alpha fl fu rnd \<noteq> []"
    using assms(1) falpha_signal_length [of len alpha fl fu rnd] by auto
  from rescale_statistics [OF assms(2,3) this, of mean]
  show ?thesis using assms(1) by (simp add: falpha_def falpha_signal_length)
qed


theorem falpha_mean_and_variance_witness:
  "(0::nat) < 2 \<and> (0::real) \<le> 4 \<and> np_std (falpha_signal 2 0 None None zeros) \<noteq> 0
   \<and> (\<exists>zs. falpha 2 0 None None 3 4 zeros = Inr (map Fin zs) \<and> length zs = 2
          \<and> np_mean zs = 3 \<and> np_var zs = 4)"
proof -
  have s: "np_std (falpha_signal 2 0 None None zeros) \<noteq> 0"
    using two_point_signal two_point_std by simp
  show ?thesis
    using falpha_mean_and_variance [where len = 2 and var = 4 and alpha = 0 and fl = None
        and fu = None and rnd = zeros and mean = 3] s
    by simp
qed


section \<open>A spectrum with no power\<close>

lemma sum_list_all_zero: "(\<And>x. x \<in> set xs \<Longrightarrow> f x = (0::real)) \<Longrightarrow> sum_list (map f xs) = 0"
  by (induction xs) auto

lemma irfft_zero:
  assumes "n div 2 < k"
  shows "irfft (replicate k 0) n = replicate n 0"
proof -
  have m: "(\<Sum>m\<leftarrow>[1..<(n + 1) div 2].
              2 * Re (replicate k 0 ! m * exp (\<i> * of_real (2 * pi * real m * real j / real n))))
            = 0" for j
    by (rule sum_list_all_zero) (use assms in auto)
  have z: "replicate k (0::complex) ! 0 = 0" "replicate k (0::complex) ! (n div 2) = 0"
    using assms by simp_all
  show ?thesis
    unfolding irfft_def m z by (simp add: map_replicate_const cong: if_cong)
qed

lemma map2_zero_power:
  assumes "length phase = k"
  shows "map2 (\<lambda>p ph. of_real (sqrt p) * exp (\<i> * of_real ph)) (replicate k 0) phase
           = replicate k (0::complex)"
  using assms by (simp add: zip_replicate1 comp_def map_replicate_const)

lemma zero_spectrum:
  assumes "falpha_power len alpha fl fu = replicate k 0" and "k = len div 2 + 1"
  shows "falpha_spectrum len alpha fl fu rnd = replicate k 0"
proof -
  define phase where "phase = map (\<lambda>k. 2 * pi * rnd k) [0..<length (rfftfreq len)]"
  have lp: "length phase = k" by (simp add: phase_def rfftfreq_def assms(2))
  have u: "(replicate k (0::complex))[j := 0] = replicate k 0" for j
    by (cases "j < k") (simp_all add: list_eq_iff_nth_eq nth_list_update)
  have "k - 1 < k" using assms(2) by simp
  then have l: "replicate k (0::complex) ! (k - 1) = 0" by (rule nth_replicate)
  show ?thesis
    unfolding falpha_spectrum_def Let_def assms(1) phase_def [symmetric] map2_zero_power [OF lp]
      length_replicate l
    by (simp add: u)
qed

lemma np_std_zero: "np_std (replicate n 0) = 0"
  by (simp add: np_std_def np_var_def np_mean_def sum_list_replicate)

lemma rescale_zero: "rescale mean var (replicate n 0) = replicate n NaN"
  by (simp add: rescale_def np_std_zero fsqrt_def signed_inf_def fsub_def Let_def)

lemma cut_power: "falpha_power 2 1 (Some 1) None = [0, 0]"
  by (simp add: falpha_power_def rfftfreq_two float_pow_def)


text \<open>
  C6, as stated: when the cutoffs zero every bin, \<open>falpha\<close> fails with an
  empty-passband error. \<open>falpha(length=2, alpha=1, fl=1.0)\<close> zeroes both bins
  (the frequencies are 0 and 0.5) and returns \<open>[nan, nan]\<close>.
\<close>

theorem empty_passband_no_error:
  "falpha_power 2 1 (Some 1) None = [0, 0]
   \<and> falpha 2 1 (Some 1) None 0 1 zeros = Inr [NaN, NaN]"
  using cut_power
  by (simp add: falpha_def falpha_signal_def falpha_spectrum_def rfftfreq_two zeros_def upt_two
      irfft_def rescale_def np_std_def np_var_def np_mean_def fsqrt_def signed_inf_def fsub_def)


text \<open>
  C6, amended: when every bin of the power spectrum is zero after the cutoffs,
  \<open>falpha\<close> with a positive \<open>length\<close> raises nothing and returns \<open>length\<close>
  NaN values, for every \<open>mean\<close>, \<open>var\<close> and random phases.
\<close>

theorem empty_passband_returns_nan:
  assumes "0 < len" and "falpha_power len alpha fl fu = replicate (len div 2 + 1) 0"
  shows "falpha len alpha fl fu mean var rnd = Inr (replicate len NaN)"
proof -
  define k where "k = len div 2 + 1"
  have "falpha_spectrum len alpha fl fu rnd = replicate k 0"
    using zero_spectrum [of len alpha fl fu k rnd] assms(2) by (simp add: k_def)
  moreover have "irfft (replicate k 0) len = replicate len 0"
    by (rule irfft_zero) (simp add: k_def)
  ultimately have "falpha_signal len alpha fl fu rnd = replicate len 0"
    by (simp add: falpha_signal_def)
  then show ?thesis using assms(1) by (simp add: falpha_def rescale_zero)
qed


theorem empty_passband_returns_nan_witness:
  "(0::nat) < 2 \<and> falpha_power 2 1 (Some 1) None = replicate (2 div 2 + 1) 0
   \<and> falpha 2 1 (Some 1) None 0 1 zeros = Inr (replicate 2 NaN)"
proof -
  have p: "falpha_power 2 1 (Some 1) None = replicate (2 div 2 + 1) 0"
    using cut_power by (simp add: numeral_2_eq_2)
  show ?thesis
    using empty_passband_returns_nan [where len = 2 and alpha = 1 and fl = "Some 1"
        and fu = None and mean = 0 and var = 1 and rnd = zeros, OF _ p] p
    by simp
qed


section \<open>Output lengths\<close>

lemma x0_fits_truth: "x0_fits d x0 \<Longrightarrow> \<not> truth_ambiguous x0"
  by (cases x0) auto

lemma np_assign_fits:
  assumes "x0_fits d x0" and "\<not> py_not x0"
  shows "\<exists>s. np_assign d x0 = Inr s \<and> length s = d"
proof (cases x0)
  case (Arr xs)
  then have "length xs = 1" using assms by simp
  then show ?thesis using Arr by (auto simp: np_broadcast_def)
qed (use assms in \<open>auto simp: np_broadcast_def\<close>)

lemma seed_row2_fits: "x0_fits 2 x0 \<Longrightarrow> \<exists>s. seed_row2 x0 d = Inr s"
  using np_assign_fits [of 2 x0] by (auto simp: seed_row2_def)

lemma henon_length:
  assumes "0 < len" and "x0_fits 2 x0"
  shows "\<exists>xs. henon len x0 a b discard rnd junk = Inr xs \<and> length xs = len"
proof -
  obtain s where "seed_row2 x0
      (fl64 (0.0 + fl64 (fl64 0.01 * fl64 (- 1 + fl64 (2 * rnd 0)))),
       fl64 (fl64 0.9 + fl64 (fl64 0.01 * fl64 (- 1 + fl64 (2 * rnd 1))))) = Inr s"
    using seed_row2_fits [OF assms(2)] by blast
  then show ?thesis
    using assms(1) x0_fits_truth [OF assms(2)] by (simp add: henon_def henon_loop_length)
qed

lemma ikeda_length:
  assumes "0 < len" and "x0_fits 2 x0"
  shows "\<exists>xs. ikeda len x0 al be ga mu discard rnd junk = Inr xs \<and> length xs = len"
proof -
  obtain s where "seed_row2 x0 (0.1 * (- 1 + 2 * rnd 0), 0.1 * (- 1 + 2 * rnd 1)) = Inr s"
    using seed_row2_fits [OF assms(2)] by blast
  then show ?thesis
    using assms(1) x0_fits_truth [OF assms(2)] by (simp add: ikeda_def ikeda_loop_length)
qed

lemma linspace_length: "0 \<le> num \<Longrightarrow> \<exists>t. linspace a b num = Inr t \<and> int (length t) = num"
  by (simp add: linspace_def)

lemma flow_stride_zero_step: "flow_stride sample 0 = 0"
  by (simp add: flow_stride_def fl64_zero py_int_def)

lemma mg_stride_zero_tau: "mg_stride n sample 0 = 0"
  by (simp add: mg_stride_def fl64_zero py_int_def)

lemma flow_sample_length:
  assumes "1 \<le> flow_stride sample step"
    and "\<forall>t. flow_grid len step sample discard = Inr t \<longrightarrow> solver_returns odeint f y0 t"
  shows "\<exists>t ts xs. flow_grid len step sample discard = Inr t
            \<and> flow_sample odeint f y0 len step sample discard = Inr (ts, xs)
            \<and> length ts = len \<and> length xs = len"
proof -
  define st where "st = flow_stride sample step"
  have st: "0 < st" using assms(1) by (simp add: st_def)
  have "0 \<le> st * int (len + discard)" using st by simp
  then obtain t where t: "flow_grid len step sample discard = Inr t"
      and lt: "int (length t) = st * int (len + discard)"
    unfolding flow_grid_def Let_def st_def [symmetric] using linspace_length by blast
  from assms(2) t obtain ys where ys: "odeint f y0 t = Inr ys" and lys: "length ys = length t"
    unfolding solver_returns_def by blast
  have e: "int (length t) = int discard * st + st * int len"
    using lt by (simp add: algebra_simps)
  obtain ts where ts: "py_slice_from t (int discard * st) st = Inr ts" "length ts = len"
    using py_slice_from_length [OF st _ e] st by auto
  obtain xs where xs: "py_slice_from ys (int discard * st) st = Inr xs" "length xs = len"
    using py_slice_from_length [OF st _ e [folded lys]] st by auto
  show ?thesis
    using t ts ys xs by (simp add: flow_sample_def Let_def st_def [symmetric])
qed

lemma mg_seed_fits:
  assumes "x0_fits n x0" and "n \<le> g"
  shows "\<exists>x. mg_seed x0 n g rnd junk = Inr x \<and> length x = g"
proof (cases "py_not x0")
  case True
  then show ?thesis
    using assms x0_fits_truth [OF assms(1)]
    by (auto simp: mg_seed_def np_broadcast_def Let_def min_def)
next
  case False
  from np_assign_fits [OF assms(1) False] obtain s where "np_assign n x0 = Inr s" "length s = n"
    by blast
  then show ?thesis
    using assms False x0_fits_truth [OF assms(1)]
    by (auto simp: mg_seed_def Let_def min_def)
qed

lemma mackey_glass_length:
  assumes "1 \<le> mg_stride n sample tau" and "fl64 (fl64 (2 * real n) + fl64 (b * tau)) \<noteq> 0"
    and "int n \<le> mg_grids len tau n sample discard" and "x0_fits n x0"
  shows "\<exists>xs. mackey_glass len x0 a b c tau n sample discard rnd junk = Inr xs \<and> length xs = len"
proof -
  define g where "g = mg_grids len tau n sample discard"
  have tau: "tau \<noteq> 0" using assms(1) mg_stride_zero_tau [of n sample] by auto
  have g0: "0 \<le> g" using assms(3) by (simp add: g_def)
  have ng: "n \<le> nat g" using assms(3) by (simp add: g_def)
  obtain x where x: "mg_seed x0 n (nat g) rnd junk = Inr x" and lx: "length x = nat g"
    using mg_seed_fits [OF assms(4) ng] by blast
  have lg: "int (length x) = g" using lx g0 by simp
  obtain x' where x': "mg_loop (mg_A b tau n) (mg_B a b tau n) c (int n) [int n - 1..g - 2] x = Inr x'"
      and lx': "length x' = length x"
    using mg_loop_in_range [OF lg, of "int n" "[int n - 1..g - 2]" "mg_A b tau n" "mg_B a b tau n" c]
    by auto
  have buf: "mg_buffer len x0 a b c tau n sample discard rnd junk = Inr x'"
    using tau g0 x assms(2) x' by (simp add: mg_buffer_def Let_def g_def [symmetric])
  have e: "int (length x') = int n * int discard + mg_stride n sample tau * int len"
    using lx' lg by (simp add: g_def mg_grids_def)
  obtain xs where "py_slice_from x' (int n * int discard) (mg_stride n sample tau) = Inr xs" "length xs = len"
    using py_slice_from_length [OF _ _ e] assms(1) by auto
  then show ?thesis using buf by (simp add: mackey_glass_def)
qed

lemma falpha_length:
  "0 < len \<Longrightarrow> \<exists>xs. falpha len alpha fl fu mean var rnd = Inr xs \<and> length xs = len"
  by (simp add: falpha_def rescale_def falpha_signal_def irfft_def Let_def)

lemma hold_solver_returns: "solver_returns hold_solver f y0 t"
  by (simp add: solver_returns_def hold_solver_def)

lemma two_point_scale: "2 * (sqrt 2 / 2) / sqrt (1 / 2) = 2"
proof -
  have "sqrt (1 / 2) = 1 / sqrt 2" by (simp add: real_sqrt_divide)
  then show ?thesis by simp
qed

lemma two_point_noise: "falpha 2 0 None None 3 4 zeros = Inr [Fin 5, Fin 1]"
proof -
  have a: "sqrt 4 * (sqrt 2 / 2) / sqrt (1 / 2) = 2"
    using two_point_scale by simp
  have b: "sqrt 4 * (- (sqrt 2 / 2)) / sqrt (1 / 2) = - 2"
    using two_point_scale by simp
  have c: "sqrt (1 / 2) \<noteq> 0" by simp
  show ?thesis
    unfolding falpha_def two_point_signal rescale_def two_point_std fsqrt_def fmean_def Let_def
    using a b c by (simp add: fsub_def)
qed

text \<open>
  A run of every generator with \<open>length=2\<close>, \<open>discard=1\<close> and, where there is
  one, stride 2.
\<close>

lemma length_run_values:
  "flow_stride 2 1 = 2" "mg_stride 1 2 1 = 2" "mg_grids 2 1 1 2 1 = 5"
  "mg_A (- 1) 1 1 = 3" "mg_B 2 (- 1) 1 1 = 2"
  by (simp_all add: flow_stride_def mg_stride_def mg_grids_def py_int_def fl64_small
      mg_A_def mg_B_def)

lemma length_run_grid: "linspace 0 6 6 = Inr [0, 6 / 5, 12 / 5, 18 / 5, 24 / 5, 6]"
  by (simp add: linspace_def upt_rec numeral_eq_Suc)

lemma length_run_flow:
  "flow_sample hold_solver f [1, 1, 1] 2 1 2 1 = Inr ([12 / 5, 24 / 5], [[1, 1, 1], [1, 1, 1]])"
  using length_run_values length_run_grid
  by (simp add: flow_sample_def flow_grid_def hold_solver_def py_slice_from_def upt_rec
      numeral_eq_Suc)

lemma length_run_lorenz:
  "lorenz 2 (Seq [1, 1, 1]) 10 2 28 1 2 1 zeros hold_solver
     = Inr ([12 / 5, 24 / 5], [[1, 1, 1], [1, 1, 1]])"
  using length_run_flow by (simp add: lorenz_def lorenz_init_def)

lemma length_run_roessler:
  "roessler 2 (Seq [1, 1, 1]) (1 / 4) (1 / 4) 6 1 2 1 zeros hold_solver
     = Inr ([12 / 5, 24 / 5], [[1, 1, 1], [1, 1, 1]])"
  using length_run_flow length_run_values length_run_grid
  by (simp add: roessler_def roessler_init_def flow_grid_def)

lemma length_run_mg_f:
  "mg_f 1 (13 / 6) = 13 / 19" "mg_f 1 (973 / 114) = 973 / 1087"
  "mg_f 1 (1188123 / 41306) = 1188123 / 1229429"
  by (simp_all add: mg_f_def float_pow_def)

lemma length_run_seed: "mg_seed (Seq [1 / 2]) 1 5 zeros zeros = Inr [1 / 2, 0, 0, 0, 0]"
  by (simp add: mg_seed_def Let_def np_broadcast_def zeros_def upt_rec numeral_eq_Suc)

lemma length_run_loop:
  "mg_loop 3 2 1 1 [0, 1, 2, 3] [1 / 2, 0, 0, 0, 0]
     = Inr [1 / 2, 13 / 6, 973 / 114, 1188123 / 41306, 4571205648269 / 50782794274]"
  by (simp add: mg_step_def py_get_def py_set_def mg_f_values length_run_mg_f)

lemma length_run_buffer:
  "mg_buffer 2 (Seq [1 / 2]) 2 (- 1) 1 1 1 2 1 zeros zeros
     = Inr [1 / 2, 13 / 6, 973 / 114, 1188123 / 41306, 4571205648269 / 50782794274]"
  using length_run_values length_run_seed length_run_loop
  by (simp add: mg_buffer_def upto_rec1 fl64_small)

lemma length_run_mackey_glass:
  "mackey_glass 2 (Seq [1 / 2]) 2 (- 1) 1 1 1 2 1 zeros zeros = Inr [13 / 6, 1188123 / 41306]"
  using length_run_values length_run_buffer
  by (simp add: mackey_glass_def py_slice_from_def upt_rec numeral_2_eq_2)

lemma length_run_henon:
  "henon 2 (Seq [0, 0]) (fl64 (14 / 10)) (fl64 (3 / 10)) 1 zeros zero_rows
     = Inr [(1, 0), (- (900719925474099 / 2251799813685248), 1)]"
  by (simp add: henon_def seed_row2_def np_broadcast_def row2_def upt_rec numeral_eq_Suc
      henon_next_def power2_eq_square henon_roundings fl64_literals(1) fl64_zero fl64_small(1))

text \<open>
  The denominator \<open>2.0 * n + b * tau\<close> can vanish in float64 where the real sum does
  not: with \<open>n = 1\<close>, \<open>tau = 3.0\<close> and \<open>b\<close> the float64 next to \<open>-2/3\<close>, the
  product rounds to \<open>-2.0\<close>.
\<close>

lemma float_denominator_vanishes:
  "fl64 (fl64 (2 * real 1) + fl64 (- (6004799503160661 / 9007199254740992) * 3)) = 0"
  "2 * real 1 + - (6004799503160661 / 9007199254740992) * 3 \<noteq> 0"
proof -
  have "fl64 (- (18014398509481983 / 9007199254740992)) = - 2"
    by (subst fl64_eval [where e = 0]; simp add: pow2_def py_round_def)
  then show "fl64 (fl64 (2 * real 1) + fl64 (- (6004799503160661 / 9007199254740992) * 3)) = 0"
    by (simp add: fl64_small fl64_zero)
  show "2 * real 1 + - (6004799503160661 / 9007199254740992) * 3 \<noteq> 0" by simp
qed

text \<open>The stride of \<open>mackey_glass\<close> at its defaults \<open>n=1000, sample=0.46, tau=23.0\<close>.\<close>

lemma default_mg_stride: "mg_stride 1000 (fl64 (46 / 100)) 23 = 20"
proof -
  have a: "fl64 (23 / 50) = 8286623314361713 / 18014398509481984"
    by (subst fl64_eval [where e = "- 2"]; simp add: pow2_def py_round_def)
  have b: "fl64 (1035827914295214125 / 2251799813685248) = 460"
    by (subst fl64_eval [where e = 8]; simp add: pow2_def py_round_def)
  have c: "fl64 20 = 20"
    by (subst fl64_eval [where e = 4]; simp add: pow2_def py_round_def)
  show ?thesis by (simp add: mg_stride_def a b c py_int_def)
qed

text \<open>
  C1, as stated: every generator returns exactly \<open>length\<close> entries whenever
  \<open>length\<close> is positive, \<open>discard\<close> is non-negative and the stride is at least 1.
  \<open>mackey_glass(length=10, discard=0)\<close> with every other parameter at its
  default has stride 20 and a buffer of 200 slots, fewer than the \<open>n = 1000\<close>
  seed values: the assignment \<open>x[:n] = ...\<close> raises ValueError.
  \<open>mackey_glass(length=1, b=-2.0, tau=1.0, n=1, sample=1.0, discard=1)\<close> has
  stride 1 and \<open>2 * n + b * tau = 0\<close>: computing \<open>A\<close> raises ZeroDivisionError.
  With \<open>x0\<close> an ndarray of the state's size, as the docstrings describe it,
  \<open>henon\<close> and \<open>lorenz\<close> raise ValueError at \<open>if not x0\<close>; with a list of
  three numbers \<open>henon\<close> raises ValueError at \<open>x[0] = x0\<close>.
\<close>

theorem generators_can_fail:
  "mg_stride 1000 (fl64 (46 / 100)) 23 = 20
   \<and> mackey_glass 10 NoX0 (fl64 (2 / 10)) (fl64 (1 / 10)) 10 23 1000 (fl64 (46 / 100)) 0
        zeros zeros = Inl ValueError
   \<and> mg_stride 1 1 1 = 1
   \<and> mackey_glass 1 NoX0 2 (- 2) 1 1 1 1 1 zeros zeros = Inl ZeroDivisionError
   \<and> henon 5 (Arr [0, 0]) (fl64 (14 / 10)) (fl64 (3 / 10)) 0 zeros zero_rows = Inl ValueError
   \<and> flow_stride 2 1 = 2
   \<and> lorenz 5 (Arr [1, 1, 1]) 10 2 28 1 2 1 zeros hold_solver = Inl ValueError
   \<and> henon 5 (Seq [1, 2, 3]) (fl64 (14 / 10)) (fl64 (3 / 10)) 0 zeros zero_rows = Inl ValueError"
  using default_mg_stride
  by (simp add: mackey_glass_def mg_buffer_def mg_grids_def mg_seed_def np_broadcast_def Let_def
      mg_stride_def flow_stride_def fl64_small fl64_zero py_int_def henon_def seed_row2_def
      lorenz_def)

text \<open>
  C1, amended: for a positive \<open>length\<close>, \<open>falpha\<close> returns \<open>length\<close> entries;
  \<open>henon\<close> and \<open>ikeda\<close> do when \<open>x0\<close> is absent, a number, a list or tuple of at
  most two numbers or an ndarray of one; \<open>lorenz\<close> and \<open>roessler\<close> return
  \<open>length\<close> times and \<open>length\<close> states when the stride is at least 1, \<open>x0\<close> is
  not an ndarray of a size other than one, and the integrator, called on the
  grid of this call, returns one state per grid point; \<open>mackey_glass\<close> does
  when the stride is at least 1, the float64 value of \<open>2 * n + b * tau\<close> is not
  zero, the fine grid has at least \<open>n\<close> slots and \<open>x0\<close> is absent, a number, a
  list or tuple of 0, 1 or \<open>n\<close> numbers or an ndarray of one.
\<close>

theorem generators_return_length:
  assumes "0 < len"
  shows "(\<exists>xs. falpha len alpha fl fu mean var rnd = Inr xs \<and> length xs = len)
     \<and> (x0_fits 2 xm \<longrightarrow>
          (\<exists>xs. henon len xm a b discard rnd jrows = Inr xs \<and> length xs = len)
        \<and> (\<exists>xs. ikeda len xm al be ga mu discard rnd jrows = Inr xs \<and> length xs = len))
     \<and> (1 \<le> flow_stride sample step \<and> \<not> truth_ambiguous xf
          \<and> (\<exists>t. flow_grid len step sample discard = Inr t
                 \<and> solver_returns odeint (lorenz_deriv sigma beta rho) (lorenz_init xf rnd) t) \<longrightarrow>
          (\<exists>ts xs. lorenz len xf sigma beta rho step sample discard rnd odeint = Inr (ts, xs)
              \<and> length ts = len \<and> length xs = len))
     \<and> (1 \<le> flow_stride sample step \<and> \<not> truth_ambiguous xf
          \<and> (\<exists>t. flow_grid len step sample discard = Inr t
                 \<and> solver_returns odeint (roessler_deriv ra rb rc) (roessler_init xf rnd) t) \<longrightarrow>
          (\<exists>ts xs. roessler len xf ra rb rc step sample discard rnd odeint = Inr (ts, xs)
              \<and> length ts = len \<and> length xs = len))
     \<and> (1 \<le> mg_stride n msample tau \<and> fl64 (fl64 (2 * real n) + fl64 (mb * tau)) \<noteq> 0
          \<and> int n \<le> mg_grids len tau n msample discard \<and> x0_fits n xn \<longrightarrow>
          (\<exists>xs. mackey_glass len xn ma mb mc tau n msample discard rnd junk = Inr xs
              \<and> length xs = len))"
proof (intro conjI impI)
  show "\<exists>xs. falpha len alpha fl fu mean var rnd = Inr xs \<and> length xs = len"
    using assms by (rule falpha_length)
next
  assume "x0_fits 2 xm"
  with assms show "\<exists>xs. henon len xm a b discard rnd jrows = Inr xs \<and> length xs = len"
    by (rule henon_length)
next
  assume "x0_fits 2 xm"
  with assms show "\<exists>xs. ikeda len xm al be ga mu discard rnd jrows = Inr xs \<and> length xs = len"
    by (rule ikeda_length)
next
  assume h: "1 \<le> flow_stride sample step \<and> \<not> truth_ambiguous xf
          \<and> (\<exists>t. flow_grid len step sample discard = Inr t
                 \<and> solver_returns odeint (lorenz_deriv sigma beta rho) (lorenz_init xf rnd) t)"
  then have "step \<noteq> 0" using flow_stride_zero_step [of sample] by auto
  then show "\<exists>ts xs. lorenz len xf sigma beta rho step sample discard rnd odeint = Inr (ts, xs)
              \<and> length ts = len \<and> length xs = len"
    using h flow_sample_length [of sample step len discard odeint
        "lorenz_deriv sigma beta rho" "lorenz_init xf rnd"]
    by (auto simp add: lorenz_def Let_def)
next
  assume h: "1 \<le> flow_stride sample step \<and> \<not> truth_ambiguous xf
          \<and> (\<exists>t. flow_grid len step sample discard = Inr t
                 \<and> solver_returns odeint (roessler_deriv ra rb rc) (roessler_init xf rnd) t)"
  then have "step \<noteq> 0" using flow_stride_zero_step [of sample] by auto
  then show "\<exists>ts xs. roessler len xf ra rb rc step sample discard rnd odeint = Inr (ts, xs)
              \<and> length ts = len \<and> length xs = len"
    using h flow_sample_length [of sample step len discard odeint
        "roessler_deriv ra rb rc" "roessler_init xf rnd"]
    by (auto simp add: roessler_def Let_def)
next
  assume "1 \<le> mg_stride n msample tau \<and> fl64 (fl64 (2 * real n) + fl64 (mb * tau)) \<noteq> 0
          \<and> int n \<le> mg_grids len tau n msample discard \<and> x0_fits n xn"
  then show "\<exists>xs. mackey_glass len xn ma mb mc tau n msample discard rnd junk = Inr xs
              \<and> length xs = len"
    using mackey_glass_length by blast
qed


theorem generators_return_length_witness:
  "0 < (2::nat) \<and> x0_fits 2 (Seq [0, 0])
   \<and> 1 \<le> flow_stride 2 1 \<and> \<not> truth_ambiguous (Seq [1, 1, 1])
   \<and> (\<exists>t. flow_grid 2 1 2 1 = Inr t
          \<and> solver_returns hold_solver (lorenz_deriv 10 2 28) (lorenz_init (Seq [1, 1, 1]) zeros) t)
   \<and> (\<exists>t. flow_grid 2 1 2 1 = Inr t
          \<and> solver_returns hold_solver (roessler_deriv (1 / 4) (1 / 4) 6)
                (roessler_init (Seq [1, 1, 1]) zeros) t)
   \<and> 1 \<le> mg_stride 1 2 1 \<and> fl64 (fl64 (2 * real 1) + fl64 ((- 1) * 1)) \<noteq> 0
   \<and> int 1 \<le> mg_grids 2 1 1 2 1 \<and> x0_fits 1 (Seq [1 / 2])
   \<and> falpha 2 0 None None 3 4 zeros = Inr [Fin 5, Fin 1]
   \<and> henon 2 (Seq [0, 0]) (fl64 (14 / 10)) (fl64 (3 / 10)) 1 zeros zero_rows
       = Inr [(1, 0), (- (900719925474099 / 2251799813685248), 1)]
   \<and> (\<exists>xs. ikeda 2 (Seq [0, 0]) 6 (4 / 10) 1 (9 / 10) 1 zeros zero_rows = Inr xs
          \<and> length xs = 2)
   \<and> lorenz 2 (Seq [1, 1, 1]) 10 2 28 1 2 1 zeros hold_solver
       = Inr ([12 / 5, 24 / 5], [[1, 1, 1], [1, 1, 1]])
   \<and> roessler 2 (Seq [1, 1, 1]) (1 / 4) (1 / 4) 6 1 2 1 zeros hold_solver
       = Inr ([12 / 5, 24 / 5], [[1, 1, 1], [1, 1, 1]])
   \<and> mackey_glass 2 (Seq [1 / 2]) 2 (- 1) 1 1 1 2 1 zeros zeros
       = Inr [13 / 6, 1188123 / 41306]"
proof -
  have d: "fl64 (fl64 (2 * real 1) + fl64 ((- 1) * 1)) \<noteq> 0"
    by (simp add: fl64_small)
  have g: "\<exists>t. flow_grid 2 1 2 1 = Inr t \<and> solver_returns hold_solver f y0 t" for f y0
    by (simp add: flow_grid_def length_run_values linspace_def hold_solver_returns)
  show ?thesis
    using generators_return_length [where len = 2 and alpha = 0 and fl = None and fu = None
        and mean = 3 and var = 4 and rnd = zeros and xm = "Seq [0, 0]" and a = "fl64 (14 / 10)"
        and b = "fl64 (3 / 10)" and discard = 1 and jrows = zero_rows and al = 6 and be = "4 / 10"
        and ga = 1 and mu = "9 / 10" and sample = 2 and step = 1 and xf = "Seq [1, 1, 1]"
        and odeint = hold_solver and sigma = 10 and beta = 2 and rho = 28
        and ra = "1 / 4" and rb = "1 / 4" and rc = 6 and n = 1 and msample = 2
        and tau = 1 and mb = "- 1" and ma = 2 and mc = 1 and xn = "Seq [1 / 2]" and junk = zeros]
      length_run_values d g two_point_noise length_run_henon length_run_lorenz
      length_run_roessler length_run_mackey_glass
    by simp
qed

section \<open>Initial conditions of the wrong size\<close>

text \<open>
  C4, as stated: an \<open>x0\<close> whose size is not the state dimension makes the call
  fail with an invalid-initial-condition error, a one-element \<open>x0\<close> included.
  \<open>henon(length=1, x0=[5.0], discard=0)\<close> returns the state (5, 5), and
  \<open>mackey_glass(length=1, x0=[0.5], a=2, b=0, c=1, tau=1, n=2, sample=0.5,
  discard=1)\<close> on a zeroed buffer returns \<open>[2/3]\<close>: numpy broadcasts the single
  value.
\<close>

theorem short_x0_is_broadcast:
  "henon 1 (Seq [5]) (14 / 10) (3 / 10) 0 zeros zero_rows = Inr [(5, 5)]
   \<and> mackey_glass 1 (Seq [1 / 2]) 2 0 1 1 2 (1 / 2) 1 zeros zeros = Inr [2 / 3]"
  by (simp add: henon_def seed_row2_def np_broadcast_def row2_def
      mackey_glass_def mg_buffer_def mg_grids_def mg_stride_def fl64_small fl64_zero py_int_def mg_seed_def Let_def
      mg_A_def mg_B_def upto_rec1 mg_step_def py_get_def py_set_def mg_f_values zeros_def
      py_slice_from_def upt_rec numeral_2_eq_2 numeral_3_eq_3)

text \<open>
  C4, amended: for \<open>henon\<close>, \<open>ikeda\<close> and \<open>mackey_glass\<close>, a sequence \<open>x0\<close> of
  at least two numbers whose size differs from the state dimension (2 for the
  maps; \<open>n\<close> for \<open>mackey_glass\<close>, when \<open>tau\<close> is nonzero and the fine grid has at
  least \<open>n\<close> slots) makes the call fail with numpy's ValueError.
\<close>

theorem x0_size_mismatch:
  assumes "2 \<le> length xs"
  shows "(length xs \<noteq> 2 \<and> 0 < len + discard \<longrightarrow>
            henon len (Seq xs) a b discard rnd jrows = Inl ValueError
          \<and> ikeda len (Seq xs) al be ga mu discard rnd jrows = Inl ValueError)
       \<and> (length xs \<noteq> n \<and> tau \<noteq> 0 \<and> int n \<le> mg_grids len tau n sample discard \<longrightarrow>
            mackey_glass len (Seq xs) ma mb mc tau n sample discard rnd junk = Inl ValueError)"
proof (intro conjI impI)
  assume h: "length xs \<noteq> 2 \<and> 0 < len + discard"
  have ne: "xs \<noteq> []" using assms by auto
  have "seed_row2 (Seq xs) d = Inl ValueError" for d
    using assms h ne by (simp add: seed_row2_def np_broadcast_def)
  then show "henon len (Seq xs) a b discard rnd jrows = Inl ValueError"
    "ikeda len (Seq xs) al be ga mu discard rnd jrows = Inl ValueError"
    using h by (simp_all add: henon_def ikeda_def)
next
  assume h: "length xs \<noteq> n \<and> tau \<noteq> 0 \<and> int n \<le> mg_grids len tau n sample discard"
  have ne: "xs \<noteq> []" using assms by auto
  from h have "int n \<le> mg_grids len tau n sample discard" by blast
  then have "n \<le> nat (mg_grids len tau n sample discard)" by linarith
  then have "mg_seed (Seq xs) n (nat (mg_grids len tau n sample discard)) rnd junk = Inl ValueError"
    using assms h ne by (simp add: mg_seed_def np_broadcast_def Let_def min_def)
  then show "mackey_glass len (Seq xs) ma mb mc tau n sample discard rnd junk = Inl ValueError"
    using h by (simp add: mackey_glass_def mg_buffer_def Let_def)
qed

theorem x0_size_mismatch_witness:
  "2 \<le> length [1, 2, 3 :: real] \<and> length [1, 2, 3 :: real] \<noteq> 2 \<and> (0::nat) < 1 + 1
   \<and> (1::real) \<noteq> 0 \<and> int 2 \<le> mg_grids 1 1 2 (1 / 2) 1
   \<and> henon 1 (Seq [1, 2, 3]) (14 / 10) (3 / 10) 1 zeros zero_rows = Inl ValueError
   \<and> ikeda 1 (Seq [1, 2, 3]) 6 (4 / 10) 1 (9 / 10) 1 zeros zero_rows = Inl ValueError
   \<and> mackey_glass 1 (Seq [1, 2, 3]) 2 0 1 1 2 (1 / 2) 1 zeros zeros = Inl ValueError"
proof -
  have g: "int 2 \<le> mg_grids 1 1 2 (1 / 2) 1"
    by (simp add: mg_grids_def mg_stride_def fl64_small py_int_def)
  show ?thesis
    using x0_size_mismatch [where xs = "[1, 2, 3]" and len = 1 and discard = 1 and n = 2
        and tau = 1 and sample = "1 / 2" and rnd = zeros and junk = zeros and ma = 2 and mb = 0
        and mc = 1 and a = "14 / 10" and b = "3 / 10" and al = 6 and be = "4 / 10" and ga = 1
        and mu = "9 / 10" and jrows = zero_rows]
      g
    by simp
qed


section \<open>Strides that are zero or negative\<close>

lemma neg_stride_values: "mg_stride 1 (- 1) 1 = - 1" "mg_grids 1 1 1 (- 1) 3 = 2"
  by (simp_all add: mg_grids_def mg_stride_def fl64_small py_int_def ceiling_def)

lemma neg_stride_seed: "mg_seed (Seq [1 / 2]) 1 2 zeros zeros = Inr [1 / 2, 0]"
  by (simp add: mg_seed_def Let_def np_broadcast_def zeros_def upt_rec numeral_2_eq_2)

lemma neg_stride_loop: "mg_loop 1 1 1 1 [0] [1 / 2, 0] = Inr [1 / 2, 5 / 6]"
  by (simp add: mg_step_def py_get_def py_set_def mg_f_values)

lemma neg_stride_buffer: "mg_buffer 1 (Seq [1 / 2]) 2 0 1 1 1 (- 1) 3 zeros zeros = Inr [1 / 2, 5 / 6]"
  using neg_stride_values neg_stride_seed mg_unit_coeffs neg_stride_loop by (simp add: mg_buffer_def upto_rec1 fl64_small fl64_zero)

lemma neg_stride_slice: "py_slice_from [1 / 2, 5 / 6 :: real] 3 (- 1) = Inr [5 / 6, 1 / 2]"
  by (simp add: py_slice_from_def upt_rec numeral_2_eq_2)

text \<open>
  C9, as stated: a stride of zero or below makes the generator fail and never
  return a trajectory of another length. \<open>mackey_glass(length=1, x0=[0.5], a=2,
  b=0, c=1, tau=1, n=1, sample=-1, discard=3)\<close> has stride -1 and a buffer of
  two slots; on a zeroed buffer it returns the two values \<open>[5/6, 1/2]\<close>, the
  buffer read backwards.
\<close>

theorem negative_stride_returns:
  "mg_stride 1 (- 1) 1 = - 1
   \<and> mackey_glass 1 (Seq [1 / 2]) 2 0 1 1 1 (- 1) 3 zeros zeros = Inr [5 / 6, 1 / 2]"
  using neg_stride_values neg_stride_buffer neg_stride_slice by (simp add: mackey_glass_def)

lemma flow_sample_bad_stride:
  assumes "flow_stride sample step \<le> 0" and "0 < len"
  shows "flow_sample odeint f y0 len step sample discard = Inl ValueError"
proof (cases "flow_stride sample step = 0")
  case True
  then show ?thesis
    by (simp add: flow_sample_def flow_grid_def linspace_def py_slice_from_def Let_def)
next
  case False
  with assms have n: "flow_stride sample step < 0" by simp
  have "0 < int (len + discard)" using assms(2) by simp
  with n have "flow_stride sample step * int (len + discard) < 0"
    by (rule mult_neg_pos)
  then show ?thesis
    by (simp add: flow_sample_def flow_grid_def linspace_def Let_def)
qed

lemma flow_grid_error:
  "flow_grid len step sample discard = Inl e \<Longrightarrow> e = ValueError"
  by (auto simp: flow_grid_def linspace_def Let_def split: if_splits)

lemma mackey_glass_zero_stride:
  assumes "mg_stride n sample tau = 0"
  shows "\<exists>e. mackey_glass len x0 a b c tau n sample discard rnd junk = Inl e"
proof (cases "mg_buffer len x0 a b c tau n sample discard rnd junk")
  case (Inl e)
  then show ?thesis by (simp add: mackey_glass_def)
next
  case (Inr x)
  then show ?thesis using assms by (simp add: mackey_glass_def py_slice_from_def)
qed

text \<open>
  C9, amended: for a positive \<open>length\<close>, \<open>lorenz\<close> and \<open>roessler\<close> fail with
  ValueError whenever the stride is zero or negative; \<open>mackey_glass\<close> fails
  whenever its stride is zero, and fails with ValueError whenever the fine-grid
  length \<open>n * discard + stride * length\<close> is negative.
\<close>

theorem nonpositive_stride_fails:
  assumes "0 < len"
  shows "(step \<noteq> 0 \<and> flow_stride sample step \<le> 0 \<longrightarrow>
            lorenz len xf sigma beta rho step sample discard rnd odeint = Inl ValueError
          \<and> roessler len xf ra rb rc step sample discard rnd odeint = Inl ValueError)
       \<and> (mg_stride n zsample ztau = 0 \<longrightarrow>
            (\<exists>e. mackey_glass len xn ma mb mc ztau n zsample discard rnd junk = Inl e))
       \<and> (tau \<noteq> 0 \<and> mg_grids len tau n msample discard < 0 \<longrightarrow>
            mackey_glass len xn ma mb mc tau n msample discard rnd junk = Inl ValueError)"
proof (intro conjI impI)
  assume h: "step \<noteq> 0 \<and> flow_stride sample step \<le> 0"
  then show "lorenz len xf sigma beta rho step sample discard rnd odeint = Inl ValueError"
    using flow_sample_bad_stride [OF _ assms] by (simp add: lorenz_def Let_def)
  from h show "roessler len xf ra rb rc step sample discard rnd odeint = Inl ValueError"
    using flow_sample_bad_stride [OF _ assms] flow_grid_error [of len step sample discard]
    by (auto simp add: roessler_def Let_def split: sum.splits)
next
  assume "mg_stride n zsample ztau = 0"
  then show "\<exists>e. mackey_glass len xn ma mb mc ztau n zsample discard rnd junk = Inl e"
    by (rule mackey_glass_zero_stride)
next
  assume "tau \<noteq> 0 \<and> mg_grids len tau n msample discard < 0"
  then show "mackey_glass len xn ma mb mc tau n msample discard rnd junk = Inl ValueError"
    by (simp add: mackey_glass_def mg_buffer_def Let_def)
qed

theorem nonpositive_stride_fails_witness:
  "(0::nat) < 1 \<and> (1::real) \<noteq> 0 \<and> flow_stride (1 / 2) 1 \<le> 0 \<and> mg_stride 1 (1 / 2) 1 = 0
   \<and> mg_grids 1 1 1 (- 1) 0 < 0
   \<and> lorenz 1 (Seq [1, 1, 1]) 10 (8 / 3) 28 1 (1 / 2) 0 zeros hold_solver = Inl ValueError
   \<and> roessler 1 (Seq [1, 1, 1]) (2 / 10) (2 / 10) (57 / 10) 1 (1 / 2) 0 zeros hold_solver = Inl ValueError
   \<and> (\<exists>e. mackey_glass 1 (Seq [1 / 2]) 2 0 1 1 1 (1 / 2) 0 zeros zeros = Inl e)
   \<and> mackey_glass 1 (Seq [1 / 2]) 2 0 1 1 1 (- 1) 0 zeros zeros = Inl ValueError"
proof -
  have h: "flow_stride (1 / 2) 1 \<le> 0" "mg_stride 1 (1 / 2) 1 = 0" "mg_grids 1 1 1 (- 1) 0 < 0"
    by (simp_all add: flow_stride_def mg_stride_def mg_grids_def fl64_small py_int_def ceiling_def)
  show ?thesis
    using nonpositive_stride_fails [where len = 1 and step = 1 and sample = "1 / 2"
        and xf = "Seq [1, 1, 1]" and sigma = 10 and beta = "8 / 3" and rho = 28 and discard = 0
        and rnd = zeros and odeint = hold_solver and ra = "2 / 10" and rb = "2 / 10"
        and rc = "57 / 10" and n = 1 and zsample = "1 / 2" and ztau = 1 and xn = "Seq [1 / 2]"
        and ma = 2 and mb = 0 and mc = 1 and junk = zeros and tau = 1 and msample = "- 1"]
      h
    by simp
qed


section \<open>The Mackey-Glass loop, iteration by iteration\<close>

text \<open>
  C10: when \<open>n\<close> is at least 1 and the loop runs (the fine grid has more than
  \<open>n\<close> slots), the first iteration \<open>i = n - 1\<close> reads \<open>x[i - n] = x[-1]\<close>, which
  Python resolves to the last slot of the buffer; that slot is beyond the \<open>n\<close>
  seeded ones and still holds what \<open>np.empty\<close> left there. The value stored in
  \<open>x[n]\<close>, which the loop never overwrites, is computed from it.
\<close>

theorem first_step_reads_unwritten_slot:
  assumes "1 \<le> n" and "int n < mg_grids len tau n sample discard"
    and "mg_buffer len ini a b c tau n sample discard rnd junk = Inr X"
  shows "(\<exists>x. mg_seed ini n (nat (mg_grids len tau n sample discard)) rnd junk = Inr x
            \<and> py_get x (int n - 1 - int n)
                = Inr (junk (nat (mg_grids len tau n sample discard) - 1)))
       \<and> X ! n = mg_A b tau n * X ! (n - 1)
                 + mg_B a b tau n
                   * (mg_f c (junk (nat (mg_grids len tau n sample discard) - 1)) + mg_f c (X ! 0))"
proof -
  define g where "g = nat (mg_grids len tau n sample discard)"
  have ng: "n < g" using assms(2) by (simp add: g_def)
  from mg_buffer_split [OF assms(3,1,2)] obtain x x1 where
    x: "mg_seed ini n g rnd junk = Inr x"
    and s: "mg_step (mg_A b tau n) (mg_B a b tau n) c (int n) (int n - 1) x = Inr x1"
    and l: "mg_loop (mg_A b tau n) (mg_B a b tau n) c (int n)
              [int n..mg_grids len tau n sample discard - 2] x1 = Inr X"
    unfolding g_def by blast
  have lx: "length x = g" using mg_seed_shape(1) [OF x] .
  have last: "x ! (g - 1) = junk (g - 1)"
    using mg_seed_shape(2) [OF x, of "g - 1"] ng by simp
  have rd: "py_get x (int n - 1 - int n) = Inr (junk (g - 1))"
    using lx ng last by (simp add: py_get_def Let_def nat_diff_distrib)
  have fr: "X ! k = x1 ! k" if "k \<le> n" for k
    using mg_loop_frame [OF l, of k] that by auto
  have st: "x1 ! k = x ! k" if "k < n" for k
    using mg_step_frame [OF s, of k] that by auto
  have v: "x1 ! n = mg_A b tau n * x ! (n - 1)
             + mg_B a b tau n * (mg_f c (x ! (length x - 1)) + mg_f c (x ! 0))"
    using mg_step_first_value [OF s] assms(1) by (simp add: nat_diff_distrib)
  have "X ! n = x1 ! n" using fr [of n] by simp
  moreover have "X ! (n - 1) = x ! (n - 1)" using fr [of "n - 1"] st [of "n - 1"] assms(1) by simp
  moreover have "X ! 0 = x ! 0" using fr [of 0] st [of 0] assms(1) by simp
  ultimately have "X ! n = mg_A b tau n * X ! (n - 1)
             + mg_B a b tau n * (mg_f c (junk (g - 1)) + mg_f c (X ! 0))"
    using v lx last by simp
  with x rd show ?thesis unfolding g_def by blast
qed

lemma run_values: "mg_stride 1 1 1 = 1" "mg_grids 2 1 1 1 1 = 3"
  by (simp_all add: mg_grids_def mg_stride_def fl64_small py_int_def)

lemma run_buffer: "mg_buffer 2 (Seq [1]) 2 0 1 1 1 1 1 zeros zeros = Inr [1, 3 / 2, 13 / 5]"
  "mg_buffer 2 (Seq [1]) 2 0 1 1 1 1 1 zeros ones = Inr [1, 2, 19 / 6]"
  using run_values run_seed mg_unit_coeffs run_loop
  by (simp_all add: mg_buffer_def upto_rec1 fl64_small fl64_zero)

lemma run_output: "mackey_glass 2 (Seq [1]) 2 0 1 1 1 1 1 zeros zeros = Inr [3 / 2, 13 / 5]"
  "mackey_glass 2 (Seq [1]) 2 0 1 1 1 1 1 zeros ones = Inr [2, 19 / 6]"
  using run_values run_buffer
  by (simp_all add: mackey_glass_def py_slice_from_def upt_rec numeral_2_eq_2)

text \<open>
  C2 on a concrete run: \<open>mackey_glass(length=2, x0=[1.0], a=2, b=0, c=1, tau=1,
  n=1, sample=1, discard=1)\<close> on a zeroed buffer, where \<open>A = B = 1\<close> and the
  loop leaves \<open>[1, 3/2, 13/5]\<close>. At the first index \<open>i = n - 1 = 0\<close> the
  recurrence read on the fine grid asks for \<open>x[1] = x[0] + f(x[-1]) + f(x[0])\<close>
  with \<open>x[-1] = 13/5\<close>, that is 20/9; the buffer holds 3/2.
\<close>

theorem first_iteration_breaks_recurrence:
  "mg_buffer 2 (Seq [1]) 2 0 1 1 1 1 1 zeros zeros = Inr [1, 3 / 2, 13 / 5]
   \<and> py_get [1, 3 / 2, 13 / 5 :: real] (int 1 - 1 - int 1) = Inr (13 / 5)
   \<and> [1, 3 / 2, 13 / 5] ! 1 \<noteq>
        mg_A 0 1 1 * [1, 3 / 2, 13 / 5] ! 0
        + mg_B 2 0 1 1 * (mg_f 1 (13 / 5) + mg_f 1 ([1, 3 / 2, 13 / 5] ! 0))"
  using run_buffer(1) mg_unit_coeffs
  by (simp add: py_get_def mg_f_more)


theorem first_step_reads_unwritten_slot_witness:
  "(1::nat) \<le> 1 \<and> int 1 < mg_grids 2 1 1 1 1
   \<and> mg_buffer 2 (Seq [1]) 2 0 1 1 1 1 1 zeros zeros = Inr [1, 3 / 2, 13 / 5]
   \<and> [1, 3 / 2, 13 / 5] ! 1 =
        mg_A 0 1 1 * [1, 3 / 2, 13 / 5] ! (1 - 1)
        + mg_B 2 0 1 1 * (mg_f 1 (zeros (nat (mg_grids 2 1 1 1 1) - 1)) + mg_f 1 ([1, 3 / 2, 13 / 5] ! 0))
   \<and> mackey_glass 2 (Seq [1]) 2 0 1 1 1 1 1 zeros zeros = Inr [3 / 2, 13 / 5]
   \<and> mackey_glass 2 (Seq [1]) 2 0 1 1 1 1 1 zeros ones = Inr [2, 19 / 6]"
proof -
  have g: "int 1 < mg_grids 2 1 1 1 1" using run_values by simp
  show ?thesis
    using first_step_reads_unwritten_slot [where n = 1 and len = 2 and tau = 1 and sample = 1
        and discard = 1 and ini = "Seq [1]" and a = 2 and b = 0 and c = 1 and rnd = zeros
        and junk = zeros and X = "[1, 3 / 2, 13 / 5]", OF _ g run_buffer(1)]
      g run_buffer(1) run_output
    by simp
qed


end
